theory Spec2Isabelle
  imports Complex_Main "HOL-Library.Sublist" "HOL-Library.Log_Nat"
begin

section \<open>Data model (types module)\<close>

text \<open>
  A JavaScript \<open>Date\<close> is an object: it has an identity (the reference the strict
  comparison \<open>!==\<close> looks at) and an instant (\<open>getTime()\<close>, milliseconds since the
  epoch). No modelled function mutates a \<open>Date\<close> it has stored, so an object is written as
  the pair of its reference and its instant. \<open>new Date()\<close> reads the clock and allocates:
  its result is an input of the function that calls it. Only valid dates are modelled.
\<close>

datatype jsdate = Date (ref: nat) (getTime: int)

datatype TaskStatus = TODO | IN_PROGRESS | COMPLETED

datatype Priority = LOW | MEDIUM | HIGH

record TimeTrackingSession =
  startTime :: jsdate
  endTime :: "jsdate option"
  duration :: "int option"

record TimeTracking =
  sessions :: "TimeTrackingSession list"
  totalTimeSpent :: int

text \<open>
  The fields of \<open>Task\<close> that the task store, the adapters and the assistant read or write.
  The remaining ones (\<open>startTime\<close>, \<open>duration\<close>, \<open>tags\<close>, \<open>createdBy\<close>, \<open>assignedTo\<close>,
  \<open>comments\<close>, \<open>subtasks\<close>, \<open>recurrence\<close>) are carried along by object spread and are
  read by none of the functions below; the persistence section has them where they matter.
\<close>

record Task =
  task_id :: string
  title :: string
  description :: "string option"
  status :: TaskStatus
  priority :: Priority
  deadline :: "jsdate option"
  createdAt :: jsdate
  updatedAt :: jsdate
  completedAt :: "jsdate option"
  timeTracking :: "TimeTracking option"
  calendarEventId :: "string option"
  notificationIds :: "string list option"

section \<open>Platform and adapters (calendarService, notificationService)\<close>

text \<open>A thrown JavaScript error (a rejected promise).\<close>

datatype exn = Error string

text \<open>
  The platform calls the adapters make, each with its outcome: \<open>Inl\<close> when the call
  throws. \<open>deviceCalendarReady\<close> is the outcome of
  \<open>this.deviceCalendarId || await this.setupCalendar()\<close>; \<open>setupCalendar\<close> catches its
  own errors and answers \<open>false\<close>. \<open>requestPermissionsAsync\<close> answers whether the status is
  \<open>granted\<close>. \<open>writeAsStringAsync\<close> receives \<open>JSON.stringify(tasks)\<close>, written here as the
  collection itself. \<open>shiftLocalMinutes t m\<close> is the instant of a \<open>Date\<close> of instant \<open>t\<close>
  after \<open>d.setMinutes(d.getMinutes() + m)\<close>: the call moves the local time by \<open>m\<close> minutes,
  which is \<open>m * 60000\<close> ms away unless the UTC offset of the device's time zone changes
  in between (then the zone decides).
\<close>

record platform =
  deviceCalendarReady :: bool
  createEventAsync :: "Task \<Rightarrow> exn + string"
  updateEventAsync :: "string \<Rightarrow> Task \<Rightarrow> exn + unit"
  deleteEventAsync :: "string \<Rightarrow> exn + unit"
  requestPermissionsAsync :: "exn + bool"
  scheduleNotificationAsync :: "string \<Rightarrow> int \<Rightarrow> exn + string"
  cancelScheduledNotificationAsync :: "string \<Rightarrow> exn + unit"
  writeAsStringAsync :: "Task list \<Rightarrow> exn + unit"
  shiftLocalMinutes :: "int \<Rightarrow> int \<Rightarrow> int"

text \<open>Truthiness of an optional string: \<open>undefined\<close>, \<open>null\<close> and \<open>""\<close> are falsy.\<close>

definition truthy :: "string option \<Rightarrow> bool" where
  "truthy s = (case s of None \<Rightarrow> False | Some v \<Rightarrow> v \<noteq> [])"

definition addTaskToCalendar :: "platform \<Rightarrow> Task \<Rightarrow> string option" where
  "addTaskToCalendar pf task =
     (case deadline task of
        None \<Rightarrow> None
      | Some d \<Rightarrow>
          if \<not> deviceCalendarReady pf then None
          else (case createEventAsync pf task of
                  Inl e \<Rightarrow> None
                | Inr eventId \<Rightarrow> Some eventId))"

definition updateTaskInCalendar :: "platform \<Rightarrow> Task \<Rightarrow> string \<Rightarrow> bool" where
  "updateTaskInCalendar pf task eventId =
     (if deadline task = None \<or> eventId = [] then False
      else if \<not> deviceCalendarReady pf then False
      else (case updateEventAsync pf eventId task of
              Inl e \<Rightarrow> False
            | Inr u \<Rightarrow> True))"

definition removeTaskFromCalendar :: "platform \<Rightarrow> string \<Rightarrow> bool" where
  "removeTaskFromCalendar pf eventId =
     (if \<not> deviceCalendarReady pf then False
      else (case deleteEventAsync pf eventId of
              Inl e \<Rightarrow> False
            | Inr u \<Rightarrow> True))"

text \<open>\<open>requestPermissions\<close> of the notification service: a throw is answered \<open>false\<close>.\<close>

definition requestPermissions :: "platform \<Rightarrow> bool" where
  "requestPermissions pf =
     (case requestPermissionsAsync pf of Inl e \<Rightarrow> False | Inr granted \<Rightarrow> granted)"

text \<open>
  \<open>scheduleTaskReminder\<close>: one reminder thirty minutes of local time before the deadline
  and one at the deadline, each only when still ahead of \<open>now\<close>. The body runs inside \<open>try\<close>: a throw of
  either scheduling call answers \<open>[]\<close>, also when the first identifier was already
  collected. \<open>scheduleNotificationAsync\<close> is given the notification's body and the
  instant of its trigger.
\<close>

definition scheduleTaskReminder :: "platform \<Rightarrow> jsdate \<Rightarrow> Task \<Rightarrow> string list" where
  "scheduleTaskReminder pf now task =
     (case deadline task of
        None \<Rightarrow> []
      | Some d \<Rightarrow>
          if \<not> requestPermissions pf then []
          else
            let thirtyMinBefore = shiftLocalMinutes pf (getTime d) (- 30);
                first =
                  (if thirtyMinBefore > getTime now
                   then (case scheduleNotificationAsync pf
                                (CHR 0x22 # title task @ CHR 0x22 # '' is due in 30 minutes'') thirtyMinBefore of
                           Inl e \<Rightarrow> Inl e
                         | Inr i \<Rightarrow> Inr [i])
                   else Inr [])
            in (case first of
                  Inl e \<Rightarrow> []
                | Inr ids \<Rightarrow>
                    if getTime d > getTime now
                    then (case scheduleNotificationAsync pf
                                 (CHR 0x22 # title task @ CHR 0x22 # '' is due now'') (getTime d) of
                            Inl e \<Rightarrow> []
                          | Inr i \<Rightarrow> ids @ [i])
                    else ids))"

definition cancelTaskReminders :: "platform \<Rightarrow> string list \<Rightarrow> unit" where
  "cancelTaskReminders pf ids =
     (case filter (\<lambda>i. isl (cancelScheduledNotificationAsync pf i)) ids of
        [] \<Rightarrow> ()
      | e # es \<Rightarrow> ())"

section \<open>Task store (TaskContext)\<close>

datatype Action =
    ADD_TASK Task
  | UPDATE_TASK Task
  | DELETE_TASK string
  | SET_TASKS "Task list"

fun taskReducer :: "Task list \<Rightarrow> Action \<Rightarrow> Task list" where
  "taskReducer state (ADD_TASK payload) = state @ [payload]"
| "taskReducer state (UPDATE_TASK payload) =
     map (\<lambda>task. if task_id task = task_id payload then payload else task) state"
| "taskReducer state (DELETE_TASK payload) =
     filter (\<lambda>task. task_id task \<noteq> payload) state"
| "taskReducer state (SET_TASKS payload) = payload"

definition getTaskById :: "Task list \<Rightarrow> string \<Rightarrow> Task option" where
  "getTaskById tasks i = find (\<lambda>task. task_id task = i) tasks"

text \<open>
  \<open>a !== b\<close> on two optional \<open>Date\<close> values: \<open>undefined !== undefined\<close> is false, two
  objects differ exactly when their references do, whatever their instants.
\<close>

fun strict_neq :: "jsdate option \<Rightarrow> jsdate option \<Rightarrow> bool" where
  "strict_neq None None = False"
| "strict_neq (Some a) (Some b) = (ref a \<noteq> ref b)"
| "strict_neq a b = True"

text \<open>The calls a mutation makes on the two adapters, in order.\<close>

datatype adapter_call =
    AddTaskToCalendar Task
  | UpdateTaskInCalendar Task string
  | RemoveTaskFromCalendar string
  | ScheduleTaskReminder Task
  | CancelTaskReminders "string list"

text \<open>
  A mutation answers \<open>Inl e\<close> when its promise rejects with \<open>e\<close>, and otherwise the new
  collection (the reducer's result for the dispatched action) with the adapter calls it
  made.
\<close>

type_synonym mutation_result = "exn + (Task list \<times> adapter_call list)"

definition addTask :: "platform \<Rightarrow> jsdate \<Rightarrow> Task \<Rightarrow> Task list \<Rightarrow> mutation_result" where
  "addTask pf now task tasks =
     (case deadline task of
        None \<Rightarrow> Inr (taskReducer tasks (ADD_TASK task), [])
      | Some d \<Rightarrow>
          let eventId = addTaskToCalendar pf task;
              task1 = (if truthy eventId then task\<lparr>calendarEventId := eventId\<rparr> else task);
              ids = scheduleTaskReminder pf now task1;
              task2 = (if length ids > 0 then task1\<lparr>notificationIds := Some ids\<rparr> else task1)
          in Inr (taskReducer tasks (ADD_TASK task2),
                  [AddTaskToCalendar task, ScheduleTaskReminder task1]))"

definition updateTask :: "platform \<Rightarrow> jsdate \<Rightarrow> Task \<Rightarrow> Task list \<Rightarrow> mutation_result" where
  "updateTask pf now task tasks =
     (case getTaskById tasks (task_id task) of
        None \<Rightarrow> Inr (taskReducer tasks (UPDATE_TASK task), [])
      | Some oldTask \<Rightarrow>
          if strict_neq (deadline task) (deadline oldTask) then
            let c1 = (case notificationIds oldTask of
                        None \<Rightarrow> []
                      | Some ids \<Rightarrow> if length ids > 0 then [CancelTaskReminders ids] else []);
                ids = scheduleTaskReminder pf now task;
                task1 = (if deadline task \<noteq> None \<and> length ids > 0
                         then task\<lparr>notificationIds := Some ids\<rparr> else task);
                c2 = (if deadline task \<noteq> None then [ScheduleTaskReminder task] else []);
                eventId = addTaskToCalendar pf task1;
                task2 =
                  (if deadline task1 \<noteq> None then
                     (if truthy (calendarEventId oldTask)
                      then task1\<lparr>calendarEventId := calendarEventId oldTask\<rparr>
                      else if truthy eventId then task1\<lparr>calendarEventId := eventId\<rparr>
                      else task1)
                   else if truthy (calendarEventId oldTask)
                     then task1\<lparr>calendarEventId := None\<rparr>
                   else task1);
                c3 =
                  (if deadline task1 \<noteq> None then
                     (if truthy (calendarEventId oldTask)
                      then [UpdateTaskInCalendar task1 (the (calendarEventId oldTask))]
                      else [AddTaskToCalendar task1])
                   else if truthy (calendarEventId oldTask)
                     then [RemoveTaskFromCalendar (the (calendarEventId oldTask))]
                   else [])
            in Inr (taskReducer tasks (UPDATE_TASK task2), c1 @ c2 @ c3)
          else Inr (taskReducer tasks (UPDATE_TASK task), []))"

definition deleteTask :: "platform \<Rightarrow> string \<Rightarrow> Task list \<Rightarrow> mutation_result" where
  "deleteTask pf i tasks =
     (let calls =
        (case getTaskById tasks i of
           None \<Rightarrow> []
         | Some taskToDelete \<Rightarrow>
             (case notificationIds taskToDelete of
                None \<Rightarrow> []
              | Some ids \<Rightarrow> if length ids > 0 then [CancelTaskReminders ids] else [])
             @ (if truthy (calendarEventId taskToDelete)
                then [RemoveTaskFromCalendar (the (calendarEventId taskToDelete))]
                else []))
      in Inr (taskReducer tasks (DELETE_TASK i), calls))"

text \<open>
  Numbers are IEEE 754 doubles: 53 significant bits, each result the double nearest to
  the exact one, a tie going to the even significand. The timer arithmetic needs the
  double of an integer and of a quotient of integers; overflow and subnormal numbers do
  not arise there. \<open>round_half_even\<close> is the nearest integer, a tie to the even one, and
  \<open>pow2 k\<close> is \<open>2\<close> to the power \<open>k\<close>.
\<close>

definition round_half_even :: "real \<Rightarrow> int" where
  "round_half_even x =
     (let f = \<lfloor>x\<rfloor> in
      if x - real_of_int f < 1 / 2 then f
      else if 1 / 2 < x - real_of_int f then f + 1
      else if even f then f else f + 1)"

definition pow2 :: "int \<Rightarrow> real" where
  "pow2 k = (if 0 \<le> k then 2 ^ nat k else 1 / 2 ^ nat (- k))"

text \<open>
  The double nearest to an integer \<open>n\<close>, itself an integer: \<open>n\<close> up to \<open>2^53\<close> in
  magnitude, and beyond that the nearest multiple of the unit in the last place, which is
  \<open>2\<close> to the power (number of bits of \<open>n\<close>) \<open>- 53\<close>.
\<close>

definition double_of_int :: "int \<Rightarrow> int" where
  "double_of_int n =
     (if \<bar>n\<bar> \<le> 2 ^ 53 then n
      else let ulp = 2 ^ nat (bitlen \<bar>n\<bar> - 53)
           in round_half_even (real_of_int n / real_of_int ulp) * ulp)"

text \<open>
  \<open>binade a b\<close> is the exponent \<open>e\<close> with \<open>2^e \<le> |a / b| < 2^(e + 1)\<close>, for \<open>a \<noteq> 0\<close> and
  \<open>b > 0\<close>; \<open>double_of_ratio a b\<close> is the double nearest to \<open>a / b\<close>, a multiple of the
  unit in the last place \<open>2^(e - 52)\<close>.
\<close>

definition binade :: "int \<Rightarrow> int \<Rightarrow> int" where
  "binade a b =
     (let c = bitlen \<bar>a\<bar> - bitlen b
      in if pow2 c * real_of_int b \<le> real_of_int \<bar>a\<bar> then c else c - 1)"

definition double_of_ratio :: "int \<Rightarrow> int \<Rightarrow> real" where
  "double_of_ratio a b =
     (if a = 0 then 0
      else let ulp = pow2 (binade a b - 52)
           in real_of_int (round_half_even (real_of_int a / real_of_int b / ulp)) * ulp)"

text \<open>
  \<open>Math.round\<close> of a double is exact: the nearest integer, a tie towards \<open>+\<infinity>\<close>.
\<close>

definition Math_round :: "real \<Rightarrow> int" where
  "Math_round x = \<lfloor>x + 1 / 2\<rfloor>"

definition startTaskTimer :: "platform \<Rightarrow> jsdate \<Rightarrow> string \<Rightarrow> Task list \<Rightarrow> mutation_result" where
  "startTaskTimer pf now taskId tasks =
     (case getTaskById tasks taskId of
        None \<Rightarrow> Inr (tasks, [])
      | Some task \<Rightarrow>
          let newSession = \<lparr>startTime = now, endTime = None, duration = None\<rparr>;
              tt = (case timeTracking task of
                      None \<Rightarrow> \<lparr>sessions = [], totalTimeSpent = 0\<rparr>
                    | Some t \<Rightarrow> t);
              updatedTask = task\<lparr>timeTracking := Some (tt\<lparr>sessions := sessions tt @ [newSession]\<rparr>)\<rparr>
          in updateTask pf now updatedTask tasks)"

definition stopTaskTimer :: "platform \<Rightarrow> jsdate \<Rightarrow> string \<Rightarrow> Task list \<Rightarrow> mutation_result" where
  "stopTaskTimer pf now taskId tasks =
     (case getTaskById tasks taskId of
        None \<Rightarrow> Inr (tasks, [])
      | Some task \<Rightarrow>
          (case timeTracking task of
             None \<Rightarrow> Inr (tasks, [])
           | Some tt \<Rightarrow>
               if sessions tt = [] then Inr (tasks, [])
               else
                 let lastSession = last (sessions tt) in
                 if endTime lastSession \<noteq> None then Inr (tasks, [])
                 else
                   let elapsed = double_of_int (getTime now - getTime (startTime lastSession));
                       d = Math_round (double_of_ratio elapsed 60000);
                       updatedSessions =
                         (sessions tt)[length (sessions tt) - 1 :=
                            lastSession\<lparr>endTime := Some now, duration := Some d\<rparr>];
                       updatedTask =
                         task\<lparr>timeTracking :=
                           Some \<lparr>sessions = updatedSessions,
                                 totalTimeSpent = double_of_int (totalTimeSpent tt + d)\<rparr>\<rparr>
                   in updateTask pf now updatedTask tasks))"

text \<open>
  The save effect. \<open>saveTasks\<close> writes the collection inside \<open>try\<close>; the handler logs the
  error and returns. The effect runs after the render that follows a dispatch, and only
  for a non-empty collection. Its answer is the outcome of the effect and the lines it
  logged.
\<close>

definition saveTasks :: "platform \<Rightarrow> Task list \<Rightarrow> (exn + unit) \<times> string list" where
  "saveTasks pf tasks =
     (case writeAsStringAsync pf tasks of
        Inl e \<Rightarrow> (Inr (), [''Error saving tasks:''])
      | Inr u \<Rightarrow> (Inr (), []))"

definition saveEffect :: "platform \<Rightarrow> Task list \<Rightarrow> (exn + unit) \<times> string list" where
  "saveEffect pf tasks = (if length tasks > 0 then saveTasks pf tasks else (Inr (), []))"

text \<open>
  One mutation as its caller sees it. The caller awaits the mutation's promise; the save
  effect of the render that follows runs next. \<open>caller_sees\<close> is what the awaited promise
  settles to, \<open>effect_outcome\<close> what the effect answered (\<open>None\<close> when no render followed).
\<close>

datatype mutation = AddTask Task | UpdateTask Task | DeleteTask string

fun mutate :: "platform \<Rightarrow> jsdate \<Rightarrow> mutation \<Rightarrow> Task list \<Rightarrow> mutation_result" where
  "mutate pf now (AddTask task) tasks = addTask pf now task tasks"
| "mutate pf now (UpdateTask task) tasks = updateTask pf now task tasks"
| "mutate pf now (DeleteTask i) tasks = deleteTask pf i tasks"

record cycle =
  caller_sees :: "exn + unit"
  tasks_after :: "Task list"
  effect_outcome :: "(exn + unit) option"
  logged :: "string list"

definition mutation_cycle :: "platform \<Rightarrow> jsdate \<Rightarrow> mutation \<Rightarrow> Task list \<Rightarrow> cycle" where
  "mutation_cycle pf now m tasks =
     (case mutate pf now m tasks of
        Inl e \<Rightarrow>
          \<lparr>caller_sees = Inl e, tasks_after = tasks, effect_outcome = None, logged = []\<rparr>
      | Inr (tasks', calls) \<Rightarrow>
          \<lparr>caller_sees = Inr (), tasks_after = tasks',
           effect_outcome = Some (fst (saveEffect pf tasks')),
           logged = snd (saveEffect pf tasks')\<rparr>)"

text \<open>
  A run of timer calls, each with the platform and the clock it meets. A call that
  rejected would leave the collection as it was.
\<close>

datatype timer_call = StartTimer string | StopTimer string

type_synonym timer_step = "platform \<times> jsdate \<times> timer_call"

fun timer_step :: "timer_step \<Rightarrow> Task list \<Rightarrow> mutation_result" where
  "timer_step (pf, now, StartTimer taskId) tasks = startTaskTimer pf now taskId tasks"
| "timer_step (pf, now, StopTimer taskId) tasks = stopTaskTimer pf now taskId tasks"

definition tasks_of :: "mutation_result \<Rightarrow> Task list \<Rightarrow> Task list" where
  "tasks_of r tasks = (case r of Inl e \<Rightarrow> tasks | Inr (tasks', calls) \<Rightarrow> tasks')"

fun run_timers :: "timer_step list \<Rightarrow> Task list \<Rightarrow> Task list" where
  "run_timers [] tasks = tasks"
| "run_timers (s # ss) tasks = run_timers ss (tasks_of (timer_step s tasks) tasks)"

definition is_open :: "TimeTrackingSession \<Rightarrow> bool" where
  "is_open s = (endTime s = None)"

definition sessions_of :: "Task \<Rightarrow> TimeTrackingSession list" where
  "sessions_of task = (case timeTracking task of None \<Rightarrow> [] | Some tt \<Rightarrow> sessions tt)"

definition has_open_session :: "Task \<Rightarrow> bool" where
  "has_open_session task = list_ex is_open (sessions_of task)"

text \<open>
  The documented guard on a run: \<open>startTimer\<close> is not called for a task that has an open
  session at that moment.
\<close>

fun respects_guards :: "timer_step list \<Rightarrow> Task list \<Rightarrow> bool" where
  "respects_guards [] tasks = True"
| "respects_guards (s # ss) tasks =
     ((case snd (snd s) of
         StartTimer taskId \<Rightarrow>
           (case getTaskById tasks taskId of
              None \<Rightarrow> True
            | Some task \<Rightarrow> \<not> has_open_session task)
       | StopTimer taskId \<Rightarrow> True)
      \<and> respects_guards ss (tasks_of (timer_step s tasks) tasks))"

text \<open>
  The session invariant: at most one session is open, and an open session, when there is
  one, is the last of the list.
\<close>

definition session_invariant :: "TimeTrackingSession list \<Rightarrow> bool" where
  "session_invariant ss =
     (length (filter is_open ss) \<le> 1 \<and> (filter is_open ss \<noteq> [] \<longrightarrow> is_open (last ss)))"

section \<open>Strings and JSON (platform built-ins)\<close>

text \<open>
  Text is a byte list; the functions below are the built-ins on ASCII text.
  \<open>toLowerCase\<close> maps \<open>A\<close>..\<open>Z\<close> to \<open>a\<close>..\<open>z\<close>, \<open>includes_text s p\<close> is
  \<open>s.includes(p)\<close> and \<open>trim\<close> removes white space at both ends.
\<close>

definition lower_char :: "char \<Rightarrow> char" where
  "lower_char c =
     (let n = (of_char c :: nat) in if 65 \<le> n \<and> n \<le> 90 then char_of (n + 32) else c)"

definition toLowerCase :: "string \<Rightarrow> string" where
  "toLowerCase s = map lower_char s"

fun includes_text :: "string \<Rightarrow> string \<Rightarrow> bool" where
  "includes_text [] p = (p = [])"
| "includes_text (c # cs) p = (prefix p (c # cs) \<or> includes_text cs p)"

definition is_space :: "char \<Rightarrow> bool" where
  "is_space c = (let n = (of_char c :: nat) in n = 32 \<or> (9 \<le> n \<and> n \<le> 13))"

definition trim :: "string \<Rightarrow> string" where
  "trim s = rev (dropWhile is_space (rev (dropWhile is_space s)))"

text \<open>Decimal text of a number, as string concatenation and template literals give it.\<close>

fun show_nat :: "nat \<Rightarrow> string" where
  "show_nat n =
     (if n < 10 then [char_of (48 + n)]
      else show_nat (n div 10) @ [char_of (48 + n mod 10)])"

declare show_nat.simps [simp del]

definition show_int :: "int \<Rightarrow> string" where
  "show_int i = (if i < 0 then CHR ''-'' # show_nat (nat (- i)) else show_nat (nat i))"

text \<open>
  JSON values. A number keeps its text. A string holds the bytes of its characters; an
  escape \<open>\uXXXX\<close> beyond ASCII is held as the UTF-8 bytes of that code unit.
\<close>

datatype json =
    JNull
  | JBool bool
  | JNumber string
  | JString string
  | JArray "json list"
  | JObject "(string \<times> json) list"

definition hex_val :: "char \<Rightarrow> nat option" where
  "hex_val c =
     (let n = (of_char c :: nat) in
      if 48 \<le> n \<and> n \<le> 57 then Some (n - 48)
      else if 97 \<le> n \<and> n \<le> 102 then Some (n - 87)
      else if 65 \<le> n \<and> n \<le> 70 then Some (n - 55)
      else None)"

definition code_unit_bytes :: "nat \<Rightarrow> string" where
  "code_unit_bytes n =
     (if n < 128 then [char_of n]
      else if n < 2048 then [char_of (192 + n div 64), char_of (128 + n mod 64)]
      else [char_of (224 + n div 4096), char_of (128 + (n div 64) mod 64),
            char_of (128 + n mod 64)])"

definition unescape :: "char \<Rightarrow> string option" where
  "unescape e =
     (if e = CHR 0x22 \<or> e = CHR 0x5C \<or> e = CHR ''/'' then Some [e]
      else if e = CHR ''b'' then Some [CHR 0x08]
      else if e = CHR ''f'' then Some [CHR 0x0C]
      else if e = CHR ''n'' then Some [CHR 0x0A]
      else if e = CHR ''r'' then Some [CHR 0x0D]
      else if e = CHR ''t'' then Some [CHR 0x09]
      else None)"

text \<open>
  The characters of a string after its opening quote, up to the closing one; \<open>acc\<close> holds
  what was read, reversed. The answer is the string and the rest of the input.
\<close>

fun parse_chars :: "string \<Rightarrow> string \<Rightarrow> (string \<times> string) option" where
  "parse_chars acc [] = None"
| "parse_chars acc (c # cs) =
     (if c = CHR 0x22 then Some (rev acc, cs)
      else if c = CHR 0x5C then
        (case cs of
           [] \<Rightarrow> None
         | e # r \<Rightarrow>
             if e = CHR ''u'' then
               (case map hex_val (take 4 r) of
                  [Some a, Some b, Some c', Some d] \<Rightarrow>
                    parse_chars (rev (code_unit_bytes (((a * 16 + b) * 16 + c') * 16 + d)) @ acc)
                      (drop 4 r)
                | _ \<Rightarrow> None)
             else (case unescape e of
                     None \<Rightarrow> None
                   | Some u \<Rightarrow> parse_chars (rev u @ acc) r))
      else if (of_char c :: nat) < 32 then None
      else parse_chars (c # acc) cs)"

definition is_digit :: "char \<Rightarrow> bool" where
  "is_digit c = (let n = (of_char c :: nat) in 48 \<le> n \<and> n \<le> 57)"

text \<open>
  A number: \<open>-? (0 | [1-9][0-9]*) (. [0-9]+)? ([eE] [+-]? [0-9]+)?\<close>. The answer is its
  text and the rest of the input.
\<close>

definition parse_number :: "string \<Rightarrow> (string \<times> string) option" where
  "parse_number s =
     (let sign = takeWhile (\<lambda>c. c = CHR ''-'') (take 1 s);
          s1 = drop (length sign) s;
          int_part = (if take 1 s1 = ''0'' then ''0'' else takeWhile is_digit s1);
          s2 = drop (length int_part) s1;
          frac = (if take 1 s2 = ''.'' then CHR ''.'' # takeWhile is_digit (drop 1 s2) else []);
          s3 = drop (length frac) s2;
          e_mark = takeWhile (\<lambda>c. c = CHR ''e'' \<or> c = CHR ''E'') (take 1 s3);
          e_sign = (if e_mark = [] then []
                    else takeWhile (\<lambda>c. c = CHR ''+'' \<or> c = CHR ''-'') (take 1 (drop 1 s3)));
          e_digits = (if e_mark = [] then []
                      else takeWhile is_digit (drop (1 + length e_sign) s3));
          expo = e_mark @ e_sign @ e_digits;
          s4 = drop (length expo) s3
      in if int_part = [] \<or> length frac = 1 \<or> (e_mark \<noteq> [] \<and> e_digits = []) then None
         else Some (sign @ int_part @ frac @ expo, s4))"

definition is_json_space :: "char \<Rightarrow> bool" where
  "is_json_space c = (c = CHR '' '' \<or> c = CHR 0x09 \<or> c = CHR 0x0A \<or> c = CHR 0x0D)"

definition skip_ws :: "string \<Rightarrow> string" where
  "skip_ws s = dropWhile is_json_space s"

text \<open>
  The recursive descent, by fuel: each call for a value, an element or a member takes one
  unit, and each reads at least one character, so \<open>JSON_parse\<close> gives more fuel than any
  text can use. \<open>None\<close> is the \<open>SyntaxError\<close> that \<open>JSON.parse\<close> throws.
\<close>

fun parse_value :: "nat \<Rightarrow> string \<Rightarrow> (json \<times> string) option"
  and parse_elements :: "nat \<Rightarrow> json list \<Rightarrow> string \<Rightarrow> (json list \<times> string) option"
  and parse_members ::
    "nat \<Rightarrow> (string \<times> json) list \<Rightarrow> string \<Rightarrow> ((string \<times> json) list \<times> string) option"
where
  "parse_value 0 s = None"
| "parse_value (Suc n) s =
     (case skip_ws s of
        [] \<Rightarrow> None
      | c # cs \<Rightarrow>
          if c = CHR ''['' then
            (if take 1 (skip_ws cs) = '']'' then Some (JArray [], drop 1 (skip_ws cs))
             else (case parse_elements n [] cs of
                     None \<Rightarrow> None
                   | Some (vs, r) \<Rightarrow> Some (JArray vs, r)))
          else if c = CHR ''{'' then
            (if take 1 (skip_ws cs) = ''}'' then Some (JObject [], drop 1 (skip_ws cs))
             else (case parse_members n [] cs of
                     None \<Rightarrow> None
                   | Some (ms, r) \<Rightarrow> Some (JObject ms, r)))
          else if c = CHR 0x22 then
            (case parse_chars [] cs of
               None \<Rightarrow> None
             | Some (str, r) \<Rightarrow> Some (JString str, r))
          else if prefix ''true'' (c # cs) then Some (JBool True, drop 4 (c # cs))
          else if prefix ''false'' (c # cs) then Some (JBool False, drop 5 (c # cs))
          else if prefix ''null'' (c # cs) then Some (JNull, drop 4 (c # cs))
          else (case parse_number (c # cs) of
                  None \<Rightarrow> None
                | Some (num, r) \<Rightarrow> Some (JNumber num, r)))"
| "parse_elements 0 acc s = None"
| "parse_elements (Suc n) acc s =
     (case parse_value n s of
        None \<Rightarrow> None
      | Some (v, r) \<Rightarrow>
          if take 1 (skip_ws r) = '','' then parse_elements n (v # acc) (drop 1 (skip_ws r))
          else if take 1 (skip_ws r) = '']'' then Some (rev (v # acc), drop 1 (skip_ws r))
          else None)"
| "parse_members 0 acc s = None"
| "parse_members (Suc n) acc s =
     (if take 1 (skip_ws s) \<noteq> [CHR 0x22] then None
      else (case parse_chars [] (drop 1 (skip_ws s)) of
              None \<Rightarrow> None
            | Some (k, r) \<Rightarrow>
                if take 1 (skip_ws r) \<noteq> '':'' then None
                else (case parse_value n (drop 1 (skip_ws r)) of
                        None \<Rightarrow> None
                      | Some (v, r') \<Rightarrow>
                          if take 1 (skip_ws r') = '',''
                          then parse_members n ((k, v) # acc) (drop 1 (skip_ws r'))
                          else if take 1 (skip_ws r') = ''}''
                          then Some (rev ((k, v) # acc), drop 1 (skip_ws r'))
                          else None)))"

definition JSON_parse :: "string \<Rightarrow> json option" where
  "JSON_parse s =
     (case parse_value (2 * length s + 2) s of
        None \<Rightarrow> None
      | Some (v, r) \<Rightarrow> if skip_ws r = [] then Some v else None)"

text \<open>
  \<open>JSON.stringify\<close> of an array of strings whose characters are printable ASCII: the
  quotation mark and the backslash are escaped.
\<close>

definition quote :: "string \<Rightarrow> string" where
  "quote s =
     CHR 0x22 # concat (map (\<lambda>c. if c = CHR 0x22 \<or> c = CHR 0x5C then [CHR 0x5C, c] else [c]) s)
       @ [CHR 0x22]"

fun join :: "string list \<Rightarrow> string" where
  "join [] = []"
| "join [x] = x"
| "join (x # y # ys) = x @ CHR '','' # join (y # ys)"

definition JSON_stringify :: "string list \<Rightarrow> string" where
  "JSON_stringify xs = CHR ''['' # join (map quote xs) @ '']''"

section \<open>AI gateway (aiService)\<close>

record ai_config =
  apiKey :: string
  apiEnabled :: bool

record chat_message =
  role :: string
  content :: string

text \<open>
  What \<open>fetch\<close> answers: the status, the outcome of \<open>response.text()\<close> and the outcome of
  reading \<open>data.choices[0].message.content\<close> from \<open>response.json()\<close> (\<open>Inl\<close> when the body
  is malformed). \<open>response.ok\<close> holds for the statuses 200 to 299.
\<close>

record http_response =
  http_status :: nat
  body_text :: "exn + string"
  first_choice_content :: "exn + string"

definition ok :: "http_response \<Rightarrow> bool" where
  "ok response = (200 \<le> http_status response \<and> http_status response \<le> 299)"

type_synonym transport = "chat_message list \<Rightarrow> exn + http_response"

definition analysis_text :: string where
  "analysis_text =
     ''Based on your task patterns, I've noticed you tend to be most productive in the morning hours. You complete about 35% more tasks before noon. Consider scheduling your high-priority work early in the day.''
     @ [CHR 0x0A, CHR 0x0A]
     @ ''I also see that your task completion rate has been improving over the last week, great job! You're now completing 68% of your tasks, up from 52% previously.''
     @ [CHR 0x0A, CHR 0x0A]
     @ ''You might want to break down your larger tasks into smaller subtasks, as your completion rate is higher when tasks are more granular.''"

definition schedule_text :: string where
  "schedule_text =
     ''For optimal productivity, I recommend this schedule for tomorrow:'' @ [CHR 0x0A, CHR 0x0A]
     @ ''8:00 - 10:00 AM: Work on high-priority task '' @ [CHR 0x22]
     @ ''Complete project proposal'' @ [CHR 0x22, CHR 0x0A]
     @ ''10:15 - 11:00 AM: Handle the 3 email-related tasks batched together'' @ [CHR 0x0A]
     @ ''11:00 - 12:00 PM: Take the client call and follow up immediately'' @ [CHR 0x0A]
     @ ''12:00 - 1:00 PM: Lunch break'' @ [CHR 0x0A]
     @ ''1:00 - 3:00 PM: Continue work on medium-priority tasks'' @ [CHR 0x0A]
     @ ''3:00 - 4:30 PM: Schedule meetings and collaborative work'' @ [CHR 0x0A]
     @ ''4:30 - 5:00 PM: Review day's progress and plan for tomorrow''"

definition endpoint_subtasks :: "string list" where
  "endpoint_subtasks =
     [''Research and gather information'',
      ''Create initial draft or plan'',
      ''Implement core components'',
      ''Review and gather feedback'',
      ''Make refinements based on feedback'',
      ''Finalize and submit'']"

definition generic_text :: string where
  "generic_text =
     ''I'm here to help you manage your tasks efficiently. I can assist with breaking down complex tasks, suggesting optimal schedules, and analyzing your productivity patterns. What would you like help with today?''"

definition getFallbackResponse :: "chat_message list \<Rightarrow> string" where
  "getFallbackResponse messages =
     (let userMessage =
            (case find (\<lambda>m. role m = ''user'') messages of
               None \<Rightarrow> []
             | Some m \<Rightarrow> content m)
      in if includes_text (toLowerCase userMessage) ''analyze'' then analysis_text
         else if includes_text (toLowerCase userMessage) ''schedule'' then schedule_text
         else if includes_text (toLowerCase userMessage) ''break down''
                 \<or> includes_text (toLowerCase userMessage) ''decompose''
           then JSON_stringify endpoint_subtasks
         else generic_text)"

text \<open>
  \<open>sendRequest\<close> answers the text and the requests it sent over the network. Its whole
  body runs inside \<open>try\<close>: a throw of \<open>fetch\<close>, the error raised for a status that is not
  ok, and a malformed body all end in the handler, which answers the fallback.
\<close>

definition sendRequest ::
  "ai_config \<Rightarrow> transport \<Rightarrow> chat_message list \<Rightarrow> string \<times> chat_message list list" where
  "sendRequest cfg fetch messages =
     (if \<not> apiEnabled cfg \<or> apiKey cfg = [] then (getFallbackResponse messages, [])
      else
        (case fetch messages of
           Inl e \<Rightarrow> (getFallbackResponse messages, [messages])
         | Inr response \<Rightarrow>
             if http_status response = 401 then (getFallbackResponse messages, [messages])
             else if \<not> ok response then (getFallbackResponse messages, [messages])
             else (case first_choice_content response of
                     Inl e \<Rightarrow> (getFallbackResponse messages, [messages])
                   | Inr c \<Rightarrow> (c, [messages]))))"

text \<open>
  \<open>response.replace(/```json|```/g, '')\<close>: every match, left to right, the longer
  alternative first. The backquote is character \<open>0x60\<close>.
\<close>

definition fence :: string where
  "fence = [CHR 0x60, CHR 0x60, CHR 0x60]"

fun strip_fences :: "string \<Rightarrow> string" where
  "strip_fences [] = []"
| "strip_fences (c # cs) =
     (if prefix (fence @ ''json'') (c # cs) then strip_fences (drop 6 cs)
      else if prefix fence (c # cs) then strip_fences (drop 2 cs)
      else c # strip_fences cs)"

definition local_subtasks :: "string list" where
  "local_subtasks =
     [''Research and gather information'',
      ''Create initial draft/plan'',
      ''Implement core components'',
      ''Review and refine'',
      ''Finalize and submit'']"

definition decompose_prompt :: "string \<Rightarrow> string \<Rightarrow> string" where
  "decompose_prompt taskTitle taskDescription =
     ''Break down this task into 4-7 actionable subtasks. Format as a JSON array of strings, nothing else.''
     @ [CHR 0x0A] @ ''        Task title: '' @ taskTitle
     @ [CHR 0x0A] @ ''        ''
     @ (if taskDescription \<noteq> [] then ''Task description: '' @ taskDescription else [])"

definition decompose_messages :: "string \<Rightarrow> string \<Rightarrow> chat_message list" where
  "decompose_messages taskTitle taskDescription =
     [\<lparr>role = ''system'',
       content = ''You are a productivity assistant that helps break down complex tasks into manageable subtasks.''\<rparr>,
      \<lparr>role = ''user'', content = decompose_prompt taskTitle taskDescription\<rparr>]"

text \<open>
  \<open>decomposeTask\<close> answers the parsed array as it is (its elements are whatever the text
  held), the empty array for a parsed value that is no array, and the local list when
  parsing throws.
\<close>

definition parse_subtasks :: "string \<Rightarrow> json list" where
  "parse_subtasks response =
     (case JSON_parse (trim (strip_fences response)) of
        None \<Rightarrow> map JString local_subtasks
      | Some subtasks \<Rightarrow> (case subtasks of JArray xs \<Rightarrow> xs | _ \<Rightarrow> []))"

definition decomposeTask :: "ai_config \<Rightarrow> transport \<Rightarrow> string \<Rightarrow> string \<Rightarrow> json list" where
  "decomposeTask cfg fetch taskTitle taskDescription =
     parse_subtasks (fst (sendRequest cfg fetch (decompose_messages taskTitle taskDescription)))"

text \<open>
  \<open>getAssistantResponse\<close>. \<open>summarize\<close> stands for \<open>JSON.stringify\<close> of the summaries
  (title, status, priority, deadline as ISO text) of the tasks it is given.
\<close>

definition assistant_messages ::
  "(Task list \<Rightarrow> string) \<Rightarrow> string \<Rightarrow> Task list \<Rightarrow> chat_message list" where
  "assistant_messages summarize userQuery recentTasks =
     [\<lparr>role = ''system'',
       content =
         ''You are a helpful productivity assistant in a task management app. '' @ [CHR 0x0A]
         @ ''        You help users manage their time, prioritize tasks, and provide productivity tips.''
         @ [CHR 0x0A]
         @ ''        Keep answers helpful, concise, and focused on task management and productivity.''
         @ [CHR 0x0A]
         @ ''        Current user tasks: '' @ summarize (take 5 recentTasks) @ [CHR 0x0A]
         @ ''        '' @ [CHR 0x0A]
         @ ''        IMPORTANT: Respond with plain text only. Do not include any JSON formatting, code blocks, or special characters.''\<rparr>,
      \<lparr>role = ''user'', content = userQuery\<rparr>]"

definition getAssistantResponse ::
  "ai_config \<Rightarrow> transport \<Rightarrow> (Task list \<Rightarrow> string) \<Rightarrow> string \<Rightarrow> Task list
     \<Rightarrow> string \<times> chat_message list list" where
  "getAssistantResponse cfg fetch summarize userQuery recentTasks =
     sendRequest cfg fetch (assistant_messages summarize userQuery recentTasks)"

section \<open>Assistant recommendation engine (TaskAssistantContext)\<close>

datatype RecommendationType = prioritization | scheduling | delegation | decomposition | pattern

text \<open>\<open>has_action\<close> tells whether the optional deferred \<open>action\<close> is present.\<close>

record AssistantRecommendation =
  rec_id :: string
  rec_type :: RecommendationType
  message :: string
  actionText :: string
  has_action :: bool
  applied :: bool
  taskIds :: "string list"

text \<open>
  A \<open>Date\<close> as its local calendar fields, for \<open>setHours\<close> and \<open>getHours\<close>: the day as a
  day count, and the time of day. \<open>setHours h m s ms\<close> with fields in range (hours below
  24, minutes and seconds below 60) sets the time of day and keeps the day; the schedule
  generator calls it in range only.
\<close>

record local_date =
  day :: int
  hours :: int
  minutes :: int
  seconds :: int
  milliseconds :: int

definition setHours :: "local_date \<Rightarrow> int \<Rightarrow> int \<Rightarrow> int \<Rightarrow> int \<Rightarrow> local_date" where
  "setHours d h m s ms = d\<lparr>hours := h, minutes := m, seconds := s, milliseconds := ms\<rparr>"

definition minute_of_day :: "local_date \<Rightarrow> int" where
  "minute_of_day d = hours d * 60 + minutes d"

record TimeSlot =
  slot_startTime :: local_date
  slot_endTime :: local_date
  productivity :: int
  suggestion :: string

text \<open>
  One turn of the loop of \<open>generateOptimalSchedule\<close>; \<open>r\<close> is what \<open>Math.random()\<close>
  answered in this turn.
\<close>

definition make_slot :: "local_date \<Rightarrow> real \<Rightarrow> nat \<Rightarrow> TimeSlot" where
  "make_slot now r i =
     (let startTime = setHours now (9 + int i * 2) 0 0 0;
          endTime = setHours startTime (hours startTime + 1) 30 0 0;
          productivity = min 10 (max 1 (5 + \<lfloor>r * 5\<rfloor>))
      in \<lparr>slot_startTime = startTime, slot_endTime = endTime, productivity = productivity,
          suggestion =
            (if productivity > 8 then ''Focus on complex tasks''
             else if productivity > 5 then ''Good for moderate difficulty tasks''
             else ''Best for simple tasks'')\<rparr>)"

definition generateOptimalSchedule :: "local_date \<Rightarrow> (nat \<Rightarrow> real) \<Rightarrow> Task list \<Rightarrow> TimeSlot list" where
  "generateOptimalSchedule now random tasks = map (\<lambda>i. make_slot now (random i) i) [0..<5]"

definition topic_keywords :: "string list" where
  "topic_keywords = [''report'', ''email'', ''meeting'', ''design'']"

definition findSimilarTaskClusters :: "Task list \<Rightarrow> Task list" where
  "findSimilarTaskClusters tasks =
     concat (map (\<lambda>keyword.
        let matches =
              filter (\<lambda>task.
                includes_text (toLowerCase (title task)) keyword
                \<or> (case description task of
                      None \<Rightarrow> False
                    | Some d \<Rightarrow> d \<noteq> [] \<and> includes_text (toLowerCase d) keyword)) tasks
        in if length matches \<ge> 2 then matches else []) topic_keywords)"

text \<open>
  The overdue high-priority tasks at the instant \<open>now\<close>: not completed, with a deadline
  before \<open>now\<close>, of high priority.
\<close>

definition overdueHighPriorityTasks :: "int \<Rightarrow> Task list \<Rightarrow> Task list" where
  "overdueHighPriorityTasks now tasks =
     filter (\<lambda>task.
        status task \<noteq> COMPLETED
        \<and> (case deadline task of None \<Rightarrow> False | Some d \<Rightarrow> getTime d < now)
        \<and> priority task = HIGH) tasks"

text \<open>
  The inputs of one pass: the outcome of awaiting \<open>aiService.analyzeTaskPatterns(tasks)\<close>,
  the clock (\<open>Date.now()\<close> and \<open>new Date()\<close> as an instant, and as local calendar fields)
  and the draws of \<open>Math.random()\<close>.
\<close>

record pass_inputs =
  aiAnalysis :: "exn + string"
  now_ms :: int
  now_local :: local_date
  random_draws :: "nat \<Rightarrow> real"

definition insightRecommendation :: "pass_inputs \<Rightarrow> Task list \<Rightarrow> AssistantRecommendation list" where
  "insightRecommendation inp tasks =
     (if length tasks \<ge> 3 then
        (case aiAnalysis inp of
           Inl e \<Rightarrow> []
         | Inr a \<Rightarrow>
             [\<lparr>rec_id = ''ai-insight-'' @ show_int (now_ms inp), rec_type = pattern,
               message = ''I've analyzed your tasks and found some productivity patterns and insights.'',
               actionText = ''View AI Analysis'', has_action = True, applied = False,
               taskIds = map task_id tasks\<rparr>])
      else [])"

definition overdueRecommendation :: "pass_inputs \<Rightarrow> Task list \<Rightarrow> AssistantRecommendation list" where
  "overdueRecommendation inp tasks =
     (let overdue = overdueHighPriorityTasks (now_ms inp) tasks in
      if length overdue > 0 then
        [\<lparr>rec_id = ''overdue-'' @ show_int (now_ms inp), rec_type = prioritization,
          message = ''You have '' @ show_nat (length overdue)
                    @ '' overdue high-priority tasks that need immediate attention.'',
          actionText = ''Focus on these first'', has_action = True, applied = False,
          taskIds = map task_id overdue\<rparr>]
      else [])"

definition batchRecommendation :: "pass_inputs \<Rightarrow> Task list \<Rightarrow> AssistantRecommendation list" where
  "batchRecommendation inp tasks =
     (let similarTasks = findSimilarTaskClusters tasks in
      if length similarTasks > 2 then
        [\<lparr>rec_id = ''batch-'' @ show_int (now_ms inp), rec_type = pattern,
          message = ''I've identified '' @ show_nat (length similarTasks)
                    @ '' similar tasks that could be batched together for better efficiency.'',
          actionText = ''Create task batch'', has_action = False, applied = False,
          taskIds = map task_id similarTasks\<rparr>]
      else [])"

definition scheduleRecommendation :: "pass_inputs \<Rightarrow> Task list \<Rightarrow> AssistantRecommendation list" where
  "scheduleRecommendation inp tasks =
     (let optimizedSchedule = generateOptimalSchedule (now_local inp) (random_draws inp) tasks in
      if length optimizedSchedule > 0 then
        [\<lparr>rec_id = ''schedule-'' @ show_int (now_ms inp), rec_type = scheduling,
          message = ''I've analyzed your productivity patterns and created an optimized schedule for your tasks.'',
          actionText = ''View optimized schedule'', has_action = False, applied = False,
          taskIds = map task_id tasks\<rparr>]
      else [])"

text \<open>The four pushes onto \<open>newRecommendations\<close>, in the order of the pass.\<close>

definition newRecommendations :: "pass_inputs \<Rightarrow> Task list \<Rightarrow> AssistantRecommendation list" where
  "newRecommendations inp tasks =
     insightRecommendation inp tasks @ overdueRecommendation inp tasks
     @ batchRecommendation inp tasks @ scheduleRecommendation inp tasks"

record assistant_state =
  recommendations :: "AssistantRecommendation list"
  optimalTimeSlots :: "TimeSlot list"
  aiInsights :: string

definition analyzeTasksAndGenerateRecommendations ::
  "pass_inputs \<Rightarrow> Task list \<Rightarrow> assistant_state \<Rightarrow> assistant_state" where
  "analyzeTasksAndGenerateRecommendations inp tasks st =
     \<lparr>recommendations = recommendations st @ newRecommendations inp tasks,
      optimalTimeSlots = generateOptimalSchedule (now_local inp) (random_draws inp) tasks,
      aiInsights =
        (if length tasks \<ge> 3
         then (case aiAnalysis inp of Inl e \<Rightarrow> aiInsights st | Inr a \<Rightarrow> a)
         else aiInsights st)\<rparr>"

text \<open>The effect on a change of the collection: a pass, for a non-empty collection.\<close>

definition recompute :: "pass_inputs \<Rightarrow> Task list \<Rightarrow> assistant_state \<Rightarrow> assistant_state" where
  "recompute inp tasks st =
     (if length tasks > 0 then analyzeTasksAndGenerateRecommendations inp tasks st else st)"

section \<open>Persistence (loadTasks, the save effect's JSON)\<close>

text \<open>
  What a date-valued field holds at run time: a \<open>Date\<close> object, or the ISO-8601 text of an
  instant, which is what \<open>JSON.stringify\<close> writes for a \<open>Date\<close> (through \<open>toISOString\<close>,
  to the millisecond) and what \<open>JSON.parse\<close> reads back, as a string. \<open>new Date(text)\<close>
  of such a text is the \<open>Date\<close> of that instant.
\<close>

datatype date_value = DateObject int | IsoString int

fun toJSON :: "date_value \<Rightarrow> date_value" where
  "toJSON (DateObject t) = IsoString t"
| "toJSON (IsoString t) = IsoString t"

fun new_Date :: "date_value \<Rightarrow> date_value" where
  "new_Date (DateObject t) = DateObject t"
| "new_Date (IsoString t) = DateObject t"

datatype RecurrenceType = NONE | DAILY | WEEKLY | MONTHLY

record stored_session =
  session_startTime :: date_value
  session_endTime :: "date_value option"
  session_duration :: "int option"

record stored_timeTracking =
  stored_sessions :: "stored_session list"
  stored_totalTimeSpent :: int

record stored_recurrence =
  recurrence_type :: RecurrenceType
  interval :: int
  endDate :: "date_value option"

record stored_comment =
  comment_id :: string
  comment_text :: string
  comment_createdAt :: date_value
  userId :: string
  userName :: string

text \<open>
  A task as the collection holds it at run time, with every date-valued field of the
  \<open>Task\<close> interface; \<open>other_fields\<close> stands for the fields that hold no date.
\<close>

record stored_task =
  stored_id :: string
  other_fields :: string
  stored_createdAt :: date_value
  stored_updatedAt :: date_value
  stored_deadline :: "date_value option"
  stored_startTime :: "date_value option"
  stored_completedAt :: "date_value option"
  stored_recurrence :: "stored_recurrence option"
  stored_timeTracking :: "stored_timeTracking option"
  stored_comments :: "stored_comment list option"

text \<open>\<open>JSON.parse(JSON.stringify(task))\<close>: every \<open>Date\<close>, at any depth, becomes its text.\<close>

definition json_session :: "stored_session \<Rightarrow> stored_session" where
  "json_session s =
     s\<lparr>session_startTime := toJSON (session_startTime s),
       session_endTime := map_option toJSON (session_endTime s)\<rparr>"

definition json_task :: "stored_task \<Rightarrow> stored_task" where
  "json_task task =
     task\<lparr>stored_createdAt := toJSON (stored_createdAt task),
          stored_updatedAt := toJSON (stored_updatedAt task),
          stored_deadline := map_option toJSON (stored_deadline task),
          stored_startTime := map_option toJSON (stored_startTime task),
          stored_completedAt := map_option toJSON (stored_completedAt task),
          stored_recurrence :=
            map_option (\<lambda>r. r\<lparr>endDate := map_option toJSON (endDate r)\<rparr>) (stored_recurrence task),
          stored_timeTracking :=
            map_option (\<lambda>t. t\<lparr>stored_sessions := map json_session (stored_sessions t)\<rparr>)
              (stored_timeTracking task),
          stored_comments :=
            map_option (map (\<lambda>c. c\<lparr>comment_createdAt := toJSON (comment_createdAt c)\<rparr>))
              (stored_comments task)\<rparr>"

text \<open>
  The file after the save effect ran for \<open>tasks\<close>, as \<open>JSON.parse\<close> reads it; \<open>None\<close> when
  the effect wrote nothing (an empty collection).
\<close>

definition written_file :: "stored_task list \<Rightarrow> stored_task list option" where
  "written_file tasks = (if length tasks > 0 then Some (map json_task tasks) else None)"

text \<open>The callback of \<open>loadedTasks.map\<close> in \<open>loadTasks\<close>.\<close>

definition formatTask :: "stored_task \<Rightarrow> stored_task" where
  "formatTask task =
     task\<lparr>stored_createdAt := new_Date (stored_createdAt task),
          stored_updatedAt := new_Date (stored_updatedAt task),
          stored_deadline := map_option new_Date (stored_deadline task),
          stored_startTime := map_option new_Date (stored_startTime task),
          stored_recurrence :=
            map_option (\<lambda>r. r\<lparr>endDate := map_option new_Date (endDate r)\<rparr>) (stored_recurrence task),
          stored_timeTracking :=
            map_option (\<lambda>t. t\<lparr>stored_sessions :=
                map (\<lambda>session. session\<lparr>session_startTime := new_Date (session_startTime session),
                                        session_endTime := map_option new_Date (session_endTime session)\<rparr>)
                  (stored_sessions t)\<rparr>)
              (stored_timeTracking task)\<rparr>"

text \<open>
  \<open>loadTasks\<close>: \<open>file\<close> is the outcome of reading and parsing the storage file, \<open>Inl\<close> when
  a step throws and \<open>Inr None\<close> when the file does not exist; in both cases nothing is
  dispatched and the collection stays as it is.
\<close>

definition loadTasks :: "(exn + stored_task list option) \<Rightarrow> stored_task list \<Rightarrow> stored_task list" where
  "loadTasks file state =
     (case file of
        Inl e \<Rightarrow> state
      | Inr None \<Rightarrow> state
      | Inr (Some loadedTasks) \<Rightarrow> map formatTask loadedTasks)"

section \<open>Closed forms and concrete inputs\<close>

text \<open>What the two timer functions answer, in closed form.\<close>

definition started :: "jsdate \<Rightarrow> Task \<Rightarrow> Task" where
  "started now task =
     task\<lparr>timeTracking :=
       Some \<lparr>sessions = sessions_of task @ [\<lparr>startTime = now, endTime = None, duration = None\<rparr>],
             totalTimeSpent = (case timeTracking task of None \<Rightarrow> 0 | Some tt \<Rightarrow> totalTimeSpent tt)\<rparr>\<rparr>"

definition elapsed_minutes :: "jsdate \<Rightarrow> TimeTrackingSession \<Rightarrow> int" where
  "elapsed_minutes now s =
     Math_round (double_of_ratio (double_of_int (getTime now - getTime (startTime s))) 60000)"

definition stopped :: "jsdate \<Rightarrow> Task \<Rightarrow> Task" where
  "stopped now task =
     task\<lparr>timeTracking :=
       Some \<lparr>sessions = butlast (sessions_of task)
                 @ [(last (sessions_of task))
                      \<lparr>endTime := Some now,
                       duration := Some (elapsed_minutes now (last (sessions_of task)))\<rparr>],
             totalTimeSpent =
               double_of_int
                 ((case timeTracking task of None \<Rightarrow> 0 | Some tt \<Rightarrow> totalTimeSpent tt)
                  + elapsed_minutes now (last (sessions_of task)))\<rparr>\<rparr>"

text \<open>The session invariant, of a task.\<close>

definition task_invariant :: "Task \<Rightarrow> bool" where
  "task_invariant task = session_invariant (sessions_of task)"

text \<open>
  Concrete inputs: a platform where every call succeeds and one where every call throws,
  tasks, a run of timer calls, gateway configurations, transports and the inputs of a pass.
\<close>

definition pf_ok :: platform where
  "pf_ok = \<lparr>deviceCalendarReady = True,
            createEventAsync = (\<lambda>t. Inr ''event-1''),
            updateEventAsync = (\<lambda>e t. Inr ()),
            deleteEventAsync = (\<lambda>e. Inr ()),
            requestPermissionsAsync = Inr True,
            scheduleNotificationAsync = (\<lambda>b t. Inr (''reminder: '' @ b)),
            cancelScheduledNotificationAsync = (\<lambda>i. Inr ()),
            writeAsStringAsync = (\<lambda>ts. Inr ()),
            shiftLocalMinutes = (\<lambda>t m. t + m * 60000)\<rparr>"

definition pf_failing :: platform where
  "pf_failing = \<lparr>deviceCalendarReady = True,
            createEventAsync = (\<lambda>t. Inl (Error ''calendar unavailable'')),
            updateEventAsync = (\<lambda>e t. Inl (Error ''calendar unavailable'')),
            deleteEventAsync = (\<lambda>e. Inl (Error ''calendar unavailable'')),
            requestPermissionsAsync = Inr True,
            scheduleNotificationAsync = (\<lambda>b t. Inl (Error ''scheduler unavailable'')),
            cancelScheduledNotificationAsync = (\<lambda>i. Inl (Error ''scheduler unavailable'')),
            writeAsStringAsync = (\<lambda>ts. Inl (Error ''disk full'')),
            shiftLocalMinutes = (\<lambda>t m. t + m * 60000)\<rparr>"

definition task_t1 :: Task where
  "task_t1 = \<lparr>task_id = ''t1'', title = ''Write report'', description = None,
     status = TODO, priority = HIGH, deadline = None,
     createdAt = Date 2 1000, updatedAt = Date 3 1000, completedAt = None,
     timeTracking = None, calendarEventId = None, notificationIds = None\<rparr>"

definition task_report :: Task where
  "task_report = \<lparr>task_id = ''t2'', title = ''Send report'', description = None,
     status = TODO, priority = HIGH, deadline = Some (Date 4 100000000),
     createdAt = Date 5 1000, updatedAt = Date 6 1000, completedAt = None,
     timeTracking = None, calendarEventId = Some ''event-7'',
     notificationIds = Some [''r1'', ''r2'']\<rparr>"



definition demo_steps :: "timer_step list" where
  "demo_steps =
     [(pf_ok, Date 10 1000, StartTimer ''t1''),
      (pf_failing, Date 11 126000, StopTimer ''t1''),
      (pf_ok, Date 12 200000, StartTimer ''t1'')]"

definition task_report_edited :: Task where
  "task_report_edited = task_report\<lparr>deadline := Some (Date 21 100000000), updatedAt := Date 22 5000\<rparr>"

definition cfg_disabled :: ai_config where
  "cfg_disabled = \<lparr>apiKey = ''sk-or-v1-0000'', apiEnabled = False\<rparr>"

definition cfg_enabled :: ai_config where
  "cfg_enabled = \<lparr>apiKey = ''sk-or-v1-0000'', apiEnabled = True\<rparr>"

definition net_down :: transport where
  "net_down = (\<lambda>messages. Inl (Error ''Network request failed''))"

definition net_answers :: "string \<Rightarrow> transport" where
  "net_answers text =
     (\<lambda>messages. Inr \<lparr>http_status = 200, body_text = Inr text, first_choice_content = Inr text\<rparr>)"

text \<open>\<open>text.toLowerCase().includes(word)\<close>, the test of the fallback selection.\<close>

definition mentions :: "string \<Rightarrow> string \<Rightarrow> bool" where
  "mentions text word = includes_text (toLowerCase text) word"

definition inputs_monday :: pass_inputs where
  "inputs_monday =
     \<lparr>aiAnalysis = Inl (Error ''offline''), now_ms = 50,
      now_local = \<lparr>day = 20000, hours = 14, minutes = 25, seconds = 7, milliseconds = 123\<rparr>,
      random_draws = (\<lambda>i. if i = 1 then 0 else if i = 3 then 99 / 100 else 1 / 2)\<rparr>"


definition no_recommendations :: assistant_state where
  "no_recommendations = \<lparr>recommendations = [], optimalTimeSlots = [], aiInsights = []\<rparr>"

definition commented_task :: stored_task where
  "commented_task =
     \<lparr>stored_id = ''t1'', other_fields = ''Write report'',
      stored_createdAt = DateObject 1000, stored_updatedAt = DateObject 2000,
      stored_deadline = Some (DateObject 90000), stored_startTime = Some (DateObject 80000),
      stored_completedAt = Some (DateObject 3000),
      stored_recurrence = Some \<lparr>recurrence_type = WEEKLY, interval = 1,
                                 endDate = Some (DateObject 99000)\<rparr>,
      stored_timeTracking =
        Some \<lparr>stored_sessions =
                 [\<lparr>session_startTime = DateObject 1500,
                   session_endTime = Some (DateObject 1900), session_duration = Some 0\<rparr>],
              stored_totalTimeSpent = 0\<rparr>,
      stored_comments =
        Some [\<lparr>comment_id = ''c1'', comment_text = ''started'',
               comment_createdAt = DateObject 2000, userId = ''current-user-id'',
               userName = ''Me''\<rparr>]\<rparr>"

text \<open>The instant a date-valued field denotes, whichever form it has.\<close>

definition instant :: "date_value \<Rightarrow> int" where
  "instant d = (case d of DateObject t \<Rightarrow> t | IsoString t \<Rightarrow> t)"

section \<open>Task store: properties\<close>

lemma getTaskById_id: "getTaskById tasks i = Some t \<Longrightarrow> task_id t = i"
  unfolding getTaskById_def by (induction tasks) (auto split: if_splits)

lemma getTaskById_mem: "getTaskById tasks i = Some t \<Longrightarrow> t \<in> set tasks"
  unfolding getTaskById_def by (induction tasks) (auto split: if_splits)

lemma strict_neq_same: "\<not> strict_neq d d"
  by (cases d) auto

lemma updateTask_same_ref:
  assumes "getTaskById tasks (task_id task) = Some oldTask"
    and "\<not> strict_neq (deadline task) (deadline oldTask)"
  shows "updateTask pf now task tasks = Inr (taskReducer tasks (UPDATE_TASK task), [])"
  using assms by (simp add: updateTask_def)


lemma startTaskTimer_found:
  assumes "getTaskById tasks taskId = Some task"
  shows "startTaskTimer pf now taskId tasks =
           Inr (taskReducer tasks (UPDATE_TASK (started now task)), [])"
proof -
  have i: "task_id task = taskId" using assms by (rule getTaskById_id)
  let ?u = "started now task"
  have "getTaskById tasks (task_id ?u) = Some task" using assms i by (simp add: started_def)
  moreover have "\<not> strict_neq (deadline ?u) (deadline task)"
    by (simp add: started_def strict_neq_same)
  ultimately have "updateTask pf now ?u tasks = Inr (taskReducer tasks (UPDATE_TASK ?u), [])"
    by (rule updateTask_same_ref)
  moreover have "startTaskTimer pf now taskId tasks = updateTask pf now ?u tasks"
  proof (cases "timeTracking task")
    case None
    then show ?thesis using assms
      by (simp add: startTaskTimer_def started_def sessions_of_def Let_def)
  next
    case (Some tt)
    then show ?thesis using assms
      by (cases tt) (simp add: startTaskTimer_def started_def sessions_of_def Let_def)
  qed
  ultimately show ?thesis by simp
qed

lemma list_update_last: "xs \<noteq> [] \<Longrightarrow> xs[length xs - Suc 0 := y] = butlast xs @ [y]"
  by (induction xs rule: rev_induct) auto

lemma stopTaskTimer_open:
  assumes "getTaskById tasks taskId = Some task"
    and "sessions_of task \<noteq> []" and "is_open (last (sessions_of task))"
  shows "stopTaskTimer pf now taskId tasks =
           Inr (taskReducer tasks (UPDATE_TASK (stopped now task)), [])"
proof -
  have i: "task_id task = taskId" using assms(1) by (rule getTaskById_id)
  obtain tt where tt: "timeTracking task = Some tt" and ss: "sessions tt \<noteq> []"
    and op: "endTime (last (sessions tt)) = None"
    using assms(2,3) by (cases "timeTracking task") (auto simp: sessions_of_def is_open_def)
  let ?u = "stopped now task"
  have "getTaskById tasks (task_id ?u) = Some task" using assms(1) i by (simp add: stopped_def)
  moreover have "\<not> strict_neq (deadline ?u) (deadline task)"
    by (simp add: stopped_def strict_neq_same)
  ultimately have "updateTask pf now ?u tasks = Inr (taskReducer tasks (UPDATE_TASK ?u), [])"
    by (rule updateTask_same_ref)
  moreover have "stopTaskTimer pf now taskId tasks = updateTask pf now ?u tasks"
    using assms(1) tt ss op
    by (simp add: stopTaskTimer_def stopped_def sessions_of_def Let_def elapsed_minutes_def
        list_update_last)
  ultimately show ?thesis by simp
qed

lemma stopTaskTimer_not_found:
  "getTaskById tasks taskId = None \<Longrightarrow> stopTaskTimer pf now taskId tasks = Inr (tasks, [])"
  by (simp add: stopTaskTimer_def)

lemma stopTaskTimer_nothing_open:
  assumes "getTaskById tasks taskId = Some task"
    and "sessions_of task = [] \<or> \<not> is_open (last (sessions_of task))"
  shows "stopTaskTimer pf now taskId tasks = Inr (tasks, [])"
proof (cases "timeTracking task")
  case None
  then show ?thesis using assms(1) by (simp add: stopTaskTimer_def)
next
  case (Some tt)
  then have "sessions tt = [] \<or> endTime (last (sessions tt)) \<noteq> None"
    using assms(2) by (simp add: sessions_of_def is_open_def)
  then show ?thesis using assms(1) Some
    by (cases "sessions tt = []") (simp_all add: stopTaskTimer_def Let_def)
qed



lemma pow2_powr: "pow2 k = 2 powr real_of_int k"
proof (cases "0 \<le> k")
  case True
  then show ?thesis by (simp add: pow2_def powr_realpow [symmetric])
next
  case False
  then have r: "real (nat (- k)) = - real_of_int k" by simp
  have "(2::real) ^ nat (- k) = 2 powr real (nat (- k))"
    by (simp add: powr_realpow)
  then have "(2::real) ^ nat (- k) = 2 powr (- real_of_int k)" by (simp only: r)
  then have "1 / (2::real) ^ nat (- k) = 2 powr real_of_int k"
    by (simp add: powr_minus_divide)
  with False show ?thesis by (simp add: pow2_def)
qed

lemma pow2_pos: "0 < pow2 k"
  by (simp add: pow2_powr)

lemma pow2_add: "pow2 (j + k) = pow2 j * pow2 k"
  by (simp add: pow2_powr powr_add)


lemma pow2_nat: "0 \<le> k \<Longrightarrow> pow2 k = real_of_int (2 ^ nat k)"
  by (simp add: pow2_def)

text \<open>\<open>binade\<close> is the exponent its description says.\<close>

lemma bitlen_pow2_bounds:
  assumes "0 < x"
  shows "pow2 (bitlen x - 1) \<le> real_of_int x \<and> real_of_int x < pow2 (bitlen x)"
proof -
  have p: "1 \<le> bitlen x" using assms bitlen_eq_zero_iff [of x] bitlen_nonneg [of x] by linarith
  have "2 ^ nat (bitlen x - 1) \<le> x" and "x < 2 ^ nat (bitlen x)"
    using bitlen_bounds [OF assms] by simp_all
  then have "real_of_int (2 ^ nat (bitlen x - 1)) \<le> real_of_int x"
    and "real_of_int x < real_of_int (2 ^ nat (bitlen x))"
    by (simp_all only: of_int_le_iff of_int_less_iff)
  then show ?thesis using p by (simp add: pow2_nat)
qed

lemma binade_bounds:
  assumes "a \<noteq> 0" and "0 < b"
  shows "pow2 (binade a b) \<le> \<bar>real_of_int a / real_of_int b\<bar> \<and>
         \<bar>real_of_int a / real_of_int b\<bar> < pow2 (binade a b + 1)"
proof -
  define A where "A = real_of_int \<bar>a\<bar>"
  define B where "B = real_of_int b"
  define c where "c = bitlen \<bar>a\<bar> - bitlen b"
  have B0: "0 < B" using assms(2) by (simp add: B_def)
  have q: "\<bar>real_of_int a / real_of_int b\<bar> = A / B"
    using assms(2) by (simp add: A_def B_def)
  have a: "pow2 (bitlen \<bar>a\<bar> - 1) \<le> A" "A < pow2 (bitlen \<bar>a\<bar>)"
    using bitlen_pow2_bounds [of "\<bar>a\<bar>"] assms(1) by (simp_all add: A_def)
  have b: "pow2 (bitlen b - 1) \<le> B" "B < pow2 (bitlen b)"
    using bitlen_pow2_bounds [OF assms(2)] by (simp_all add: B_def)
  have la: "pow2 (bitlen \<bar>a\<bar>) = pow2 (c + 1) * pow2 (bitlen b - 1)"
    unfolding pow2_add [symmetric] c_def by simp
  have lb: "pow2 (bitlen \<bar>a\<bar> - 1) = pow2 (c - 1) * pow2 (bitlen b)"
    unfolding pow2_add [symmetric] c_def by simp
  have up: "A < pow2 (c + 1) * B"
  proof -
    have "pow2 (c + 1) * pow2 (bitlen b - 1) \<le> pow2 (c + 1) * B"
      using b(1) pow2_pos [of "c + 1"] by simp
    with a(2) la show ?thesis by simp
  qed
  have lo: "pow2 (c - 1) * B < A"
  proof -
    have "pow2 (c - 1) * B < pow2 (c - 1) * pow2 (bitlen b)"
      using b(2) pow2_pos [of "c - 1"] by simp
    with a(1) lb show ?thesis by simp
  qed
  show ?thesis
  proof (cases "pow2 c * B \<le> A")
    case True
    then have e: "binade a b = c" by (simp add: binade_def Let_def c_def A_def B_def)
    from True B0 have "pow2 c \<le> A / B" by (simp add: field_simps)
    moreover from up B0 have "A / B < pow2 (c + 1)" by (simp add: field_simps)
    ultimately show ?thesis unfolding q e by simp
  next
    case False
    then have e: "binade a b = c - 1" by (simp add: binade_def Let_def c_def A_def B_def)
    from lo B0 have "pow2 (c - 1) \<le> A / B" by (simp add: field_simps)
    moreover from False B0 have "A / B < pow2 c" by (simp add: field_simps)
    ultimately show ?thesis unfolding q e by simp
  qed
qed








lemma invariant_after_start:
  assumes "\<not> list_ex is_open ss" and "is_open s"
  shows "session_invariant (ss @ [s])"
proof -
  have "filter is_open ss = []" using assms(1) by (induction ss) auto
  then show ?thesis using assms(2) by (simp add: session_invariant_def)
qed

lemma invariant_after_stop:
  assumes "session_invariant ss" and "ss \<noteq> []" and "is_open (last ss)" and "\<not> is_open s"
  shows "session_invariant (butlast ss @ [s])"
proof -
  have "filter is_open (butlast ss @ [last ss]) = filter is_open (butlast ss) @ [last ss]"
    using assms(3) by simp
  then have "filter is_open ss = filter is_open (butlast ss) @ [last ss]"
    using assms(2) by simp
  then have "filter is_open (butlast ss) = []"
    using assms(1) by (simp add: session_invariant_def)
  then show ?thesis using assms(4) by (simp add: session_invariant_def)
qed

lemma invariant_update:
  assumes "\<forall>t\<in>set tasks. session_invariant (sessions_of t)" and "session_invariant (sessions_of p)"
  shows "\<forall>t\<in>set (taskReducer tasks (UPDATE_TASK p)). session_invariant (sessions_of t)"
  using assms by auto

lemma sessions_of_started:
  "sessions_of (started now task)
     = sessions_of task @ [\<lparr>startTime = now, endTime = None, duration = None\<rparr>]"
  by (simp add: started_def sessions_of_def)

lemma sessions_of_stopped:
  "sessions_of (stopped now task)
     = butlast (sessions_of task)
         @ [(last (sessions_of task))
              \<lparr>endTime := Some now,
               duration := Some (elapsed_minutes now (last (sessions_of task)))\<rparr>]"
  by (simp add: stopped_def sessions_of_def)

lemma timer_step_invariant:
  assumes inv: "\<forall>t\<in>set tasks. session_invariant (sessions_of t)"
    and guard: "respects_guards [s] tasks"
  shows "\<forall>t\<in>set (tasks_of (timer_step s tasks) tasks). session_invariant (sessions_of t)"
proof -
  obtain pf now c where s: "s = (pf, now, c)" by (cases s) auto
  show ?thesis
  proof (cases c)
    case (StartTimer taskId)
    show ?thesis
    proof (cases "getTaskById tasks taskId")
      case None
      then show ?thesis using inv s StartTimer by (simp add: startTaskTimer_def tasks_of_def)
    next
      case (Some task)
      have "\<not> has_open_session task" using guard s StartTimer Some by simp
      then have "session_invariant (sessions_of (started now task))"
        unfolding sessions_of_started has_open_session_def
        by (rule invariant_after_start) (simp add: is_open_def)
      with inv have "\<forall>t\<in>set (taskReducer tasks (UPDATE_TASK (started now task))).
                       session_invariant (sessions_of t)"
        by (rule invariant_update)
      then show ?thesis
        using s StartTimer startTaskTimer_found [OF Some, of pf now]
        by (simp add: tasks_of_def)
    qed
  next
    case (StopTimer taskId)
    show ?thesis
    proof (cases "\<exists>task. getTaskById tasks taskId = Some task \<and> sessions_of task \<noteq> []
                     \<and> is_open (last (sessions_of task))")
      case True
      then obtain task where t: "getTaskById tasks taskId = Some task"
        and ne: "sessions_of task \<noteq> []" and op: "is_open (last (sessions_of task))" by blast
      have "task \<in> set tasks" using t by (rule getTaskById_mem)
      then have "session_invariant (sessions_of task)" using inv by blast
      then have "session_invariant (sessions_of (stopped now task))"
        unfolding sessions_of_stopped using ne op
        by (rule invariant_after_stop) (simp add: is_open_def)
      with inv have "\<forall>t\<in>set (taskReducer tasks (UPDATE_TASK (stopped now task))).
                       session_invariant (sessions_of t)"
        by (rule invariant_update)
      then show ?thesis
        using s StopTimer stopTaskTimer_open [OF t ne op, of pf now]
        by (simp add: tasks_of_def)
    next
      case False
      have "stopTaskTimer pf now taskId tasks = Inr (tasks, [])"
      proof (cases "getTaskById tasks taskId")
        case None
        then show ?thesis by (rule stopTaskTimer_not_found)
      next
        case (Some task)
        with False have "sessions_of task = [] \<or> \<not> is_open (last (sessions_of task))"
          by blast
        with Some show ?thesis by (rule stopTaskTimer_nothing_open)
      qed
      then show ?thesis using inv s StopTimer by (simp add: tasks_of_def)
    qed
  qed
qed

lemma run_timers_invariant:
  assumes "\<forall>t\<in>set tasks. session_invariant (sessions_of t)"
    and "respects_guards steps tasks"
  shows "\<forall>t\<in>set (run_timers steps tasks). session_invariant (sessions_of t)"
  using assms
proof (induction steps arbitrary: tasks)
  case Nil
  then show ?case by simp
next
  case (Cons s steps)
  have "respects_guards [s] tasks" using Cons.prems(2) by simp
  with Cons.prems(1)
  have "\<forall>t\<in>set (tasks_of (timer_step s tasks) tasks). session_invariant (sessions_of t)"
    by (rule timer_step_invariant)
  moreover have "respects_guards steps (tasks_of (timer_step s tasks) tasks)"
    using Cons.prems(2) by simp
  ultimately show ?case using Cons.IH by simp
qed




text \<open>
  C5. From a collection whose tasks satisfy the session invariant (a task never timed
  satisfies it), every finite run of \<open>startTimer\<close> and \<open>stopTimer\<close> calls that never
  starts a timer on a task with an open session ends in a collection whose tasks satisfy
  it: at most one session has no end, and such a session is the last of its list.
\<close>

theorem timers_keep_invariant:
  assumes "list_all task_invariant tasks" and "respects_guards steps tasks"
  shows "list_all task_invariant (run_timers steps tasks)"
proof -
  have "\<forall>t\<in>set tasks. session_invariant (sessions_of t)"
    using assms(1) by (simp add: list_all_iff task_invariant_def)
  then have "\<forall>t\<in>set (run_timers steps tasks). session_invariant (sessions_of t)"
    using assms(2) by (rule run_timers_invariant)
  then show ?thesis by (simp add: list_all_iff task_invariant_def)
qed

text \<open>A run that starts, stops and starts again the timer of one task.\<close>

theorem timers_keep_invariant_witness:
  "list_all task_invariant [task_t1] \<and> respects_guards demo_steps [task_t1] \<and>
   list_all task_invariant (run_timers demo_steps [task_t1]) \<and>
   map sessions_of (run_timers demo_steps [task_t1]) =
     [[\<lparr>startTime = Date 10 1000, endTime = Some (Date 11 126000), duration = Some 2\<rparr>,
       \<lparr>startTime = Date 12 200000, endTime = None, duration = None\<rparr>]]"
proof -
  have a: "list_all task_invariant [task_t1]" by code_simp
  have b: "respects_guards demo_steps [task_t1]" by code_simp
  have c: "map sessions_of (run_timers demo_steps [task_t1]) =
     [[\<lparr>startTime = Date 10 1000, endTime = Some (Date 11 126000), duration = Some 2\<rparr>,
       \<lparr>startTime = Date 12 200000, endTime = None, duration = None\<rparr>]]" by code_simp
  from timers_keep_invariant [OF a b] a b c show ?thesis by blast
qed

text \<open>
  C1. \<open>updateTask\<close> compares the two deadlines with \<open>!==\<close>, that is by reference. For a
  stored task with reminders and a calendar event, an update whose deadline is another
  \<open>Date\<close> object of the same instant cancels the reminders, schedules new ones and
  updates the calendar event. (When the deadline is the same object, or absent on both
  sides, lemma \<open>updateTask_same_ref\<close> applies: no adapter call, the entity is replaced.)
\<close>

theorem updateTask_same_instant_fresh_object:
  "map_option getTime (deadline task_report_edited) = map_option getTime (deadline task_report) \<and>
   updateTask pf_ok (Date 20 5000) task_report_edited [task_report] =
     Inr ([task_report_edited
             \<lparr>notificationIds := Some [''reminder: '' @ CHR 0x22 # ''Send report'' @ CHR 0x22 # '' is due in 30 minutes'', ''reminder: '' @ CHR 0x22 # ''Send report'' @ CHR 0x22 # '' is due now'']\<rparr>],
          [CancelTaskReminders [''r1'', ''r2''],
           ScheduleTaskReminder task_report_edited,
           UpdateTaskInCalendar
             (task_report_edited
                \<lparr>notificationIds := Some [''reminder: '' @ CHR 0x22 # ''Send report'' @ CHR 0x22 # '' is due in 30 minutes'', ''reminder: '' @ CHR 0x22 # ''Send report'' @ CHR 0x22 # '' is due now'']\<rparr>)
             ''event-7''])"
  by code_simp

lemma updatedAt_started: "updatedAt (started now task) = updatedAt task"
  by (simp add: started_def)

lemma updatedAt_stopped: "updatedAt (stopped now task) = updatedAt task"
  by (simp add: stopped_def)

text \<open>
  C8. \<open>startTaskTimer\<close> and \<open>stopTaskTimer\<close> build the updated task by spreading the
  stored one and replacing \<open>timeTracking\<close> only: after a start at instant 5000 and a stop
  at instant 130000, \<open>updatedAt\<close> is still the stored \<open>Date\<close> of instant 1000.
\<close>

theorem timers_leave_updatedAt:
  "map updatedAt (tasks_of (startTaskTimer pf_ok (Date 10 5000) ''t1'' [task_t1]) [task_t1])
     = [Date 3 1000] \<and>
   map updatedAt
     (tasks_of (stopTaskTimer pf_ok (Date 11 130000) ''t1''
        (tasks_of (startTaskTimer pf_ok (Date 10 5000) ''t1'' [task_t1]) [task_t1])) [])
     = [Date 3 1000]"
  by code_simp

lemma addTask_returns: "\<exists>tasks' calls. addTask pf now task tasks = Inr (tasks', calls)"
  by (cases "deadline task") (simp_all add: addTask_def Let_def)

lemma updateTask_returns: "\<exists>tasks' calls. updateTask pf now task tasks = Inr (tasks', calls)"
  by (cases "getTaskById tasks (task_id task)") (simp_all add: updateTask_def Let_def)

lemma deleteTask_returns: "\<exists>tasks' calls. deleteTask pf i tasks = Inr (tasks', calls)"
  by (simp add: deleteTask_def Let_def)

lemma mutate_returns: "\<exists>tasks' calls. mutate pf now m tasks = Inr (tasks', calls)"
  by (cases m) (simp_all add: addTask_returns updateTask_returns deleteTask_returns)

lemma saveEffect_absorbs:
  "saveEffect pf tasks =
     (Inr (), if tasks \<noteq> [] \<and> isl (writeAsStringAsync pf tasks)
              then [''Error saving tasks:''] else [])"
  by (cases "writeAsStringAsync pf tasks") (simp_all add: saveEffect_def saveTasks_def)

text \<open>
  C3, as the code has it. Whatever platform calls throw, every mutation (\<open>addTask\<close>,
  \<open>updateTask\<close>, \<open>deleteTask\<close>) returns normally with the new collection: adapter
  failures never make it fail. The save effect that follows also returns normally; a
  failing write is logged by \<open>saveTasks\<close> and reaches no caller.
\<close>

theorem mutation_returns_write_failure_absorbed:
  "\<exists>tasks' calls.
     mutate pf now m tasks = Inr (tasks', calls) \<and>
     mutation_cycle pf now m tasks =
       \<lparr>caller_sees = Inr (), tasks_after = tasks', effect_outcome = Some (Inr ()),
        logged = (if tasks' \<noteq> [] \<and> isl (writeAsStringAsync pf tasks')
                  then [''Error saving tasks:''] else [])\<rparr>"
proof -
  obtain tasks' calls where r: "mutate pf now m tasks = Inr (tasks', calls)"
    using mutate_returns by blast
  then show ?thesis by (simp add: mutation_cycle_def saveEffect_absorbs)
qed

text \<open>Adding a task with a deadline on the platform where every call throws.\<close>

theorem mutation_returns_write_failure_absorbed_witness:
  "\<exists>tasks' calls.
     mutate pf_failing (Date 10 1000) (AddTask task_report) [task_t1] = Inr (tasks', calls) \<and>
     mutation_cycle pf_failing (Date 10 1000) (AddTask task_report) [task_t1] =
       \<lparr>caller_sees = Inr (), tasks_after = tasks', effect_outcome = Some (Inr ()),
        logged = (if tasks' \<noteq> [] \<and> isl (writeAsStringAsync pf_failing tasks')
                  then [''Error saving tasks:''] else [])\<rparr>"
  by (rule mutation_returns_write_failure_absorbed)

text \<open>
  C3 as stated fails: the write of the collection \<open>[task_t1]\<close> throws, and the caller of
  \<open>addTask\<close> sees a normal return.
\<close>

theorem write_failure_does_not_propagate:
  "writeAsStringAsync pf_failing [task_t1] = Inl (Error ''disk full'') \<and>
   mutation_cycle pf_failing (Date 10 1000) (AddTask task_t1) [] =
     \<lparr>caller_sees = Inr (), tasks_after = [task_t1], effect_outcome = Some (Inr ()),
      logged = [''Error saving tasks:'']\<rparr>"
  by code_simp

section \<open>AI gateway: properties\<close>

lemma query_mentions_analyze:
  "includes_text (toLowerCase ''please analyze my week'') ''analyze''"
  by code_simp

lemma fallback_for_query:
  "getFallbackResponse (assistant_messages summarize ''please analyze my week'' tasks)
     = analysis_text"
  by (simp add: getFallbackResponse_def assistant_messages_def query_mentions_analyze)

text \<open>
  C9. With the gateway disabled, or with no credential, \<open>getAssistantResponse\<close> for the
  query "please analyze my week" answers the canned analysis paragraph and sends no
  request, whatever the task lists, their summaries and the transport: two calls agree.
\<close>

theorem disabled_gateway_answers_analysis:
  assumes "\<not> apiEnabled cfg \<or> apiKey cfg = []"
  shows "getAssistantResponse cfg fetch1 summarize1 ''please analyze my week'' tasks1
           = (analysis_text, []) \<and>
         getAssistantResponse cfg fetch2 summarize2 ''please analyze my week'' tasks2
           = (analysis_text, [])"
  using assms by (auto simp add: getAssistantResponse_def sendRequest_def fallback_for_query)

text \<open>Two calls on a disabled gateway, with different tasks and transports.\<close>

theorem disabled_gateway_answers_analysis_witness:
  "apiEnabled cfg_disabled = False \<and>
   getAssistantResponse cfg_disabled (net_answers ''Hello'') (\<lambda>ts. ''[]'')
       ''please analyze my week'' [task_t1] = (analysis_text, []) \<and>
   getAssistantResponse cfg_disabled net_down (\<lambda>ts. ''[{}]'')
       ''please analyze my week'' [task_report, task_t1] = (analysis_text, [])"
proof -
  have h: "\<not> apiEnabled cfg_disabled \<or> apiKey cfg_disabled = []"
    by (simp add: cfg_disabled_def)
  have d: "apiEnabled cfg_disabled = False" by (simp add: cfg_disabled_def)
  from disabled_gateway_answers_analysis [OF h] d show ?thesis by blast
qed

lemma includes_text_empty: "includes_text t []"
  by (cases t) simp_all

lemma includes_text_append: "includes_text s p \<Longrightarrow> includes_text (s @ t) p"
proof (induction s)
  case Nil
  then show ?case by (simp add: includes_text_empty)
next
  case (Cons a s)
  then show ?case using prefix_prefix [of p "a # s" t] by auto
qed

lemma toLowerCase_append: "toLowerCase (a @ b) = toLowerCase a @ toLowerCase b"
  by (simp add: toLowerCase_def)

lemma prompt_head_mentions_break_down:
  "includes_text
     (toLowerCase ''Break down this task into 4-7 actionable subtasks. Format as a JSON array of strings, nothing else.'')
     ''break down''"
  by code_simp

lemma prompt_mentions_break_down:
  "includes_text (toLowerCase (decompose_prompt t d)) ''break down''"
  unfolding decompose_prompt_def toLowerCase_append
  by (intro includes_text_append prompt_head_mentions_break_down)

lemma fallback_for_decompose:
  "getFallbackResponse (decompose_messages t d) =
     (if mentions (decompose_prompt t d) ''analyze'' then analysis_text
      else if mentions (decompose_prompt t d) ''schedule'' then schedule_text
      else JSON_stringify endpoint_subtasks)"
  by (simp add: getFallbackResponse_def decompose_messages_def mentions_def
      prompt_mentions_break_down)

lemma parse_analysis_text: "parse_subtasks analysis_text = map JString local_subtasks"
  by code_simp

lemma parse_schedule_text: "parse_subtasks schedule_text = map JString local_subtasks"
  by code_simp

lemma parse_endpoint_subtasks:
  "parse_subtasks (JSON_stringify endpoint_subtasks) = map JString endpoint_subtasks"
  by code_simp

lemma sendRequest_transport_throws:
  assumes "apiEnabled cfg" and "apiKey cfg \<noteq> []" and "fetch messages = Inl e"
  shows "sendRequest cfg fetch messages = (getFallbackResponse messages, [messages])"
  using assms by (simp add: sendRequest_def)

text \<open>
  C4, as the code has it. \<open>decomposeTask\<close> parses what \<open>sendRequest\<close> answered: when
  parsing the cleaned text throws, the result is the local 5-item list; when it parses to
  a value that is no array, the result is the empty list; when it parses to an array, the
  result is that array. When the transport throws, \<open>sendRequest\<close> answers the keyword
  fallback for the prompt, which always mentions "break down": the result is the
  endpoint fallback's 6-item list, or the local 5-item list when the prompt (title and
  description included) mentions "analyze" or "schedule"; it is never empty.
\<close>

theorem decomposeTask_outcomes:
  "(JSON_parse (trim (strip_fences response)) = None
      \<longrightarrow> parse_subtasks response = map JString local_subtasks) \<and>
   (\<forall>v. JSON_parse (trim (strip_fences response)) = Some v \<and> (\<forall>xs. v \<noteq> JArray xs)
      \<longrightarrow> parse_subtasks response = []) \<and>
   (\<forall>xs. JSON_parse (trim (strip_fences response)) = Some (JArray xs)
      \<longrightarrow> parse_subtasks response = xs) \<and>
   decomposeTask cfg fetch t d
     = parse_subtasks (fst (sendRequest cfg fetch (decompose_messages t d))) \<and>
   (apiEnabled cfg \<and> apiKey cfg \<noteq> [] \<and> fetch (decompose_messages t d) = Inl e
      \<longrightarrow> decomposeTask cfg fetch t d =
            (if mentions (decompose_prompt t d) ''analyze''
                \<or> mentions (decompose_prompt t d) ''schedule''
             then map JString local_subtasks
             else map JString endpoint_subtasks)
          \<and> decomposeTask cfg fetch t d \<noteq> [])"
proof -
  have a: "JSON_parse (trim (strip_fences response)) = None
      \<longrightarrow> parse_subtasks response = map JString local_subtasks"
    by (simp add: parse_subtasks_def)
  have b: "\<forall>v. JSON_parse (trim (strip_fences response)) = Some v \<and> (\<forall>xs. v \<noteq> JArray xs)
      \<longrightarrow> parse_subtasks response = []"
  proof (intro allI impI)
    fix v
    assume "JSON_parse (trim (strip_fences response)) = Some v \<and> (\<forall>xs. v \<noteq> JArray xs)"
    then show "parse_subtasks response = []"
      by (cases v) (simp_all add: parse_subtasks_def)
  qed
  have c: "\<forall>xs. JSON_parse (trim (strip_fences response)) = Some (JArray xs)
      \<longrightarrow> parse_subtasks response = xs"
    by (simp add: parse_subtasks_def)
  have d: "decomposeTask cfg fetch t d
     = parse_subtasks (fst (sendRequest cfg fetch (decompose_messages t d)))"
    by (simp add: decomposeTask_def)
  have e: "apiEnabled cfg \<and> apiKey cfg \<noteq> [] \<and> fetch (decompose_messages t d) = Inl e
      \<longrightarrow> decomposeTask cfg fetch t d =
            (if mentions (decompose_prompt t d) ''analyze''
                \<or> mentions (decompose_prompt t d) ''schedule''
             then map JString local_subtasks
             else map JString endpoint_subtasks)
          \<and> decomposeTask cfg fetch t d \<noteq> []"
  proof
    assume h: "apiEnabled cfg \<and> apiKey cfg \<noteq> [] \<and> fetch (decompose_messages t d) = Inl e"
    then have "sendRequest cfg fetch (decompose_messages t d)
                 = (getFallbackResponse (decompose_messages t d), [decompose_messages t d])"
      by (intro sendRequest_transport_throws) simp_all
    then have r: "decomposeTask cfg fetch t d
                 = parse_subtasks (getFallbackResponse (decompose_messages t d))"
      by (simp add: decomposeTask_def)
    have v: "decomposeTask cfg fetch t d =
            (if mentions (decompose_prompt t d) ''analyze''
                \<or> mentions (decompose_prompt t d) ''schedule''
             then map JString local_subtasks
             else map JString endpoint_subtasks)"
      unfolding r fallback_for_decompose
      by (simp add: parse_analysis_text parse_schedule_text parse_endpoint_subtasks)
    have "map JString local_subtasks \<noteq> []" and "map JString endpoint_subtasks \<noteq> []"
      by (simp_all add: local_subtasks_def endpoint_subtasks_def)
    with v show "decomposeTask cfg fetch t d =
            (if mentions (decompose_prompt t d) ''analyze''
                \<or> mentions (decompose_prompt t d) ''schedule''
             then map JString local_subtasks
             else map JString endpoint_subtasks)
          \<and> decomposeTask cfg fetch t d \<noteq> []"
      by (simp split: if_splits)
  qed
  from a b c d e show ?thesis by blast
qed

text \<open>Each case of the theorem at a concrete title, description or response.\<close>

theorem decomposeTask_outcomes_witness:
  "decomposeTask cfg_enabled net_down ''Analyze sales'' [] = map JString local_subtasks \<and>
   decomposeTask cfg_enabled net_down ''Plan offsite'' ''book rooms'' = map JString endpoint_subtasks \<and>
   parse_subtasks ''not json'' = map JString local_subtasks \<and>
   parse_subtasks ''{}'' = [] \<and>
   parse_subtasks ''[1]'' = [JNumber ''1'']"
proof -
  have h1: "apiEnabled cfg_enabled \<and> apiKey cfg_enabled \<noteq> []
              \<and> net_down (decompose_messages ''Analyze sales'' []) = Inl (Error ''Network request failed'')"
    by (simp add: cfg_enabled_def net_down_def)
  have h2: "apiEnabled cfg_enabled \<and> apiKey cfg_enabled \<noteq> []
              \<and> net_down (decompose_messages ''Plan offsite'' ''book rooms'') = Inl (Error ''Network request failed'')"
    by (simp add: cfg_enabled_def net_down_def)
  have m1: "mentions (decompose_prompt ''Analyze sales'' []) ''analyze''" by code_simp
  have m2: "\<not> mentions (decompose_prompt ''Plan offsite'' ''book rooms'') ''analyze''"
    and m3: "\<not> mentions (decompose_prompt ''Plan offsite'' ''book rooms'') ''schedule''"
    by code_simp+
  have p1: "JSON_parse (trim (strip_fences ''not json'')) = None" by code_simp
  have p2: "JSON_parse (trim (strip_fences ''{}'')) = Some (JObject [])" by code_simp
  have p3: "JSON_parse (trim (strip_fences ''[1]'')) = Some (JArray [JNumber ''1''])" by code_simp
  note T1 = decomposeTask_outcomes [of "''not json''" cfg_enabled net_down "''Analyze sales''" "[]"
            "Error ''Network request failed''"]
  note T2 = decomposeTask_outcomes [of "''{}''" cfg_enabled net_down "''Plan offsite''"
            "''book rooms''" "Error ''Network request failed''"]
  note T3 = decomposeTask_outcomes [of "''[1]''" cfg_enabled net_down "''Plan offsite''"
            "''book rooms''" "Error ''Network request failed''"]
  from T1 h1 have "decomposeTask cfg_enabled net_down ''Analyze sales'' [] =
            (if mentions (decompose_prompt ''Analyze sales'' []) ''analyze''
                \<or> mentions (decompose_prompt ''Analyze sales'' []) ''schedule''
             then map JString local_subtasks
             else map JString endpoint_subtasks)" by blast
  with m1 have w1: "decomposeTask cfg_enabled net_down ''Analyze sales'' [] = map JString local_subtasks"
    by (simp only: simp_thms if_True)
  from T2 h2 have "decomposeTask cfg_enabled net_down ''Plan offsite'' ''book rooms'' =
            (if mentions (decompose_prompt ''Plan offsite'' ''book rooms'') ''analyze''
                \<or> mentions (decompose_prompt ''Plan offsite'' ''book rooms'') ''schedule''
             then map JString local_subtasks
             else map JString endpoint_subtasks)" by blast
  with m2 m3 have w2: "decomposeTask cfg_enabled net_down ''Plan offsite'' ''book rooms''
                         = map JString endpoint_subtasks"
    by (simp only: simp_thms if_False)
  from T1 p1 have w3: "parse_subtasks ''not json'' = map JString local_subtasks" by blast
  from T2 p2 have w4: "parse_subtasks ''{}'' = []" by blast
  from T3 p3 have w5: "parse_subtasks ''[1]'' = [JNumber ''1'']" by blast
  from w1 w2 w3 w4 w5 show ?thesis by blast
qed

text \<open>
  C4 as stated fails: with a transport that throws, the title "Write report" gives the
  6-item list of the endpoint fallback, and the response \<open>42\<close> (valid JSON, no array)
  gives the empty list.
\<close>

theorem decomposeTask_not_always_local_list:
  "decomposeTask cfg_enabled net_down ''Write report'' [] = map JString endpoint_subtasks \<and>
   length (decomposeTask cfg_enabled net_down ''Write report'' []) = 6 \<and>
   decomposeTask cfg_enabled (net_answers ''42'') ''Write report'' [] = []"
  by code_simp

section \<open>Assistant and persistence: properties\<close>

lemma generateOptimalSchedule_unfold:
  "generateOptimalSchedule now rnd tasks =
     [make_slot now (rnd 0) 0, make_slot now (rnd 1) 1, make_slot now (rnd 2) 2,
      make_slot now (rnd 3) 3, make_slot now (rnd 4) 4]"
proof -
  have "[0..<5] = [0, 1, 2, 3, 4::nat]" by (simp add: upt_rec)
  then show ?thesis by (simp add: generateOptimalSchedule_def)
qed

lemma productivity_range:
  assumes "0 \<le> r" and "r < 1"
  shows "5 \<le> productivity (make_slot now r i) \<and> productivity (make_slot now r i) \<le> 9"
proof -
  have "0 \<le> \<lfloor>r * 5\<rfloor>" using assms(1) by simp
  moreover have "\<lfloor>r * 5\<rfloor> \<le> 4" using assms(2) by linarith
  ultimately show ?thesis by (simp add: make_slot_def Let_def)
qed

lemma slot_times:
  "slot_startTime (make_slot now r i) = setHours now (9 + int i * 2) 0 0 0 \<and>
   slot_endTime (make_slot now r i) = setHours now (9 + int i * 2 + 1) 30 0 0"
  by (simp add: make_slot_def Let_def setHours_def)

lemma slot_span:
  "day (slot_startTime (make_slot now r i)) = day now \<and>
   day (slot_endTime (make_slot now r i)) = day now \<and>
   minute_of_day (slot_endTime (make_slot now r i))
     - minute_of_day (slot_startTime (make_slot now r i)) = 90 \<and>
   seconds (slot_startTime (make_slot now r i)) = 0 \<and>
   seconds (slot_endTime (make_slot now r i)) = 0 \<and>
   milliseconds (slot_startTime (make_slot now r i)) = 0 \<and>
   milliseconds (slot_endTime (make_slot now r i)) = 0"
  by (simp add: make_slot_def Let_def setHours_def minute_of_day_def)

lemma insight_type: "filter (\<lambda>r. rec_type r = ty) (insightRecommendation inp tasks)
    = (if ty = pattern then insightRecommendation inp tasks else [])"
proof (cases "length tasks \<ge> 3")
  case False
  then show ?thesis by (simp add: insightRecommendation_def)
next
  case True
  show ?thesis
  proof (cases "aiAnalysis inp")
    case (Inl a)
    with True show ?thesis by (simp add: insightRecommendation_def)
  next
    case (Inr b)
    with True show ?thesis by (simp add: insightRecommendation_def)
  qed
qed

lemma overdue_type: "filter (\<lambda>r. rec_type r = ty) (overdueRecommendation inp tasks)
    = (if ty = prioritization then overdueRecommendation inp tasks else [])"
  by (cases "length (overdueHighPriorityTasks (now_ms inp) tasks) > 0")
     (simp_all add: overdueRecommendation_def Let_def)

lemma batch_type: "filter (\<lambda>r. rec_type r = ty) (batchRecommendation inp tasks)
    = (if ty = pattern then batchRecommendation inp tasks else [])"
  by (cases "length (findSimilarTaskClusters tasks) > 2")
     (simp_all add: batchRecommendation_def Let_def)

lemma scheduleRecommendation_length: "length (scheduleRecommendation inp tasks) = 1"
  by (simp add: scheduleRecommendation_def Let_def generateOptimalSchedule_def)

lemma schedule_type: "filter (\<lambda>r. rec_type r = ty) (scheduleRecommendation inp tasks)
    = (if ty = scheduling then scheduleRecommendation inp tasks else [])"
proof -
  have "length (generateOptimalSchedule (now_local inp) (random_draws inp) tasks) > 0"
    by (simp add: generateOptimalSchedule_def)
  then show ?thesis by (simp add: scheduleRecommendation_def Let_def)
qed

lemma one_scheduling_recommendation:
  "length (filter (\<lambda>r. rec_type r = scheduling) (newRecommendations inp tasks)) = 1"
  by (simp add: newRecommendations_def insight_type overdue_type batch_type schedule_type
      scheduleRecommendation_length)


text \<open>
  C10. With every draw of \<open>Math.random()\<close> in \<open>[0, 1)\<close>, the schedule generator returns
  exactly 5 slots starting at 9:00, 11:00, 13:00, 15:00 and 17:00 of the current day, each
  ending 90 minutes after its start on the same day, with a productivity score from 5 to
  9; so a pass holds exactly one scheduling recommendation among those it appends, and
  the recomputation for a non-empty collection appends them and stores the slots.
\<close>

theorem schedule_always_five_slots:
  assumes "\<forall>i<5. 0 \<le> random_draws inp i \<and> random_draws inp i < 1"
  shows "length (generateOptimalSchedule (now_local inp) (random_draws inp) tasks) = 5 \<and>
         map (\<lambda>s. (hours (slot_startTime s), minutes (slot_startTime s)))
             (generateOptimalSchedule (now_local inp) (random_draws inp) tasks)
           = [(9, 0), (11, 0), (13, 0), (15, 0), (17, 0)] \<and>
         list_all (\<lambda>s. day (slot_startTime s) = day (now_local inp) \<and>
                        day (slot_endTime s) = day (now_local inp) \<and>
                        minute_of_day (slot_endTime s) - minute_of_day (slot_startTime s) = 90 \<and>
                        seconds (slot_startTime s) = 0 \<and> milliseconds (slot_startTime s) = 0 \<and>
                        seconds (slot_endTime s) = 0 \<and> milliseconds (slot_endTime s) = 0 \<and>
                        5 \<le> productivity s \<and> productivity s \<le> 9)
             (generateOptimalSchedule (now_local inp) (random_draws inp) tasks) \<and>
         length (filter (\<lambda>r. rec_type r = scheduling) (newRecommendations inp tasks)) = 1 \<and>
         (tasks \<noteq> [] \<longrightarrow>
            recommendations (recompute inp tasks st)
              = recommendations st @ newRecommendations inp tasks \<and>
            optimalTimeSlots (recompute inp tasks st)
              = generateOptimalSchedule (now_local inp) (random_draws inp) tasks)"
proof -
  let ?slots = "generateOptimalSchedule (now_local inp) (random_draws inp) tasks"
  have u: "?slots = [make_slot (now_local inp) (random_draws inp 0) 0,
                     make_slot (now_local inp) (random_draws inp 1) 1,
                     make_slot (now_local inp) (random_draws inp 2) 2,
                     make_slot (now_local inp) (random_draws inp 3) 3,
                     make_slot (now_local inp) (random_draws inp 4) 4]"
    by (rule generateOptimalSchedule_unfold)
  have r: "\<And>i. i < 5 \<Longrightarrow> 5 \<le> productivity (make_slot (now_local inp) (random_draws inp i) i)
                         \<and> productivity (make_slot (now_local inp) (random_draws inp i) i) \<le> 9"
    using assms by (intro productivity_range) simp_all
  have a: "length ?slots = 5" unfolding u by simp
  have b: "map (\<lambda>s. (hours (slot_startTime s), minutes (slot_startTime s))) ?slots
             = [(9, 0), (11, 0), (13, 0), (15, 0), (17, 0)]"
    unfolding u by (simp add: slot_times setHours_def)
  have c: "list_all (\<lambda>s. day (slot_startTime s) = day (now_local inp) \<and>
                        day (slot_endTime s) = day (now_local inp) \<and>
                        minute_of_day (slot_endTime s) - minute_of_day (slot_startTime s) = 90 \<and>
                        seconds (slot_startTime s) = 0 \<and> milliseconds (slot_startTime s) = 0 \<and>
                        seconds (slot_endTime s) = 0 \<and> milliseconds (slot_endTime s) = 0 \<and>
                        5 \<le> productivity s \<and> productivity s \<le> 9) ?slots"
    unfolding u using r [of 0] r [of 1] r [of 2] r [of 3] r [of 4]
    by (simp add: slot_span)
  have d: "length (filter (\<lambda>r. rec_type r = scheduling) (newRecommendations inp tasks)) = 1"
    by (rule one_scheduling_recommendation)
  have e: "tasks \<noteq> [] \<longrightarrow>
            recommendations (recompute inp tasks st)
              = recommendations st @ newRecommendations inp tasks \<and>
            optimalTimeSlots (recompute inp tasks st) = ?slots"
    by (simp add: recompute_def analyzeTasksAndGenerateRecommendations_def)
  from a b c d e show ?thesis by blast
qed

text \<open>A pass with the draws 0.5, 0, 0.5, 0.99, 0.5 over a single task.\<close>

theorem schedule_always_five_slots_witness:
  "list_all (\<lambda>i. 0 \<le> random_draws inputs_monday i \<and> random_draws inputs_monday i < 1) [0..<5] \<and>
   map productivity
     (generateOptimalSchedule (now_local inputs_monday) (random_draws inputs_monday) [task_t1])
     = [7, 5, 7, 9, 7] \<and>
   length (generateOptimalSchedule (now_local inputs_monday) (random_draws inputs_monday) [task_t1])
     = 5 \<and>
   map rec_type (recommendations (recompute inputs_monday [task_t1] no_recommendations))
     = [scheduling]"
proof -
  have h: "\<forall>i<5. 0 \<le> random_draws inputs_monday i \<and> random_draws inputs_monday i < 1"
    by (simp add: inputs_monday_def)
  have a: "list_all (\<lambda>i. 0 \<le> random_draws inputs_monday i \<and> random_draws inputs_monday i < 1)
             [0..<5]"
    using h by (simp add: list_all_iff)
  have b: "map productivity
     (generateOptimalSchedule (now_local inputs_monday) (random_draws inputs_monday) [task_t1])
     = [7, 5, 7, 9, 7]"
    by code_simp
  have c: "map rec_type (recommendations (recompute inputs_monday [task_t1] no_recommendations))
     = [scheduling]"
    by code_simp
  from schedule_always_five_slots [OF h, of "[task_t1]" no_recommendations] a b c
  show ?thesis by blast
qed





lemma new_Date_toJSON: "new_Date (toJSON d) = DateObject (instant d)"
  by (cases d) (simp_all add: instant_def)

lemma reload_converted_fields:
  "stored_createdAt (formatTask (json_task task)) = DateObject (instant (stored_createdAt task)) \<and>
   stored_updatedAt (formatTask (json_task task)) = DateObject (instant (stored_updatedAt task)) \<and>
   stored_deadline (formatTask (json_task task))
     = map_option (\<lambda>d. DateObject (instant d)) (stored_deadline task) \<and>
   stored_startTime (formatTask (json_task task))
     = map_option (\<lambda>d. DateObject (instant d)) (stored_startTime task) \<and>
   map_option endDate (stored_recurrence (formatTask (json_task task)))
     = map_option (\<lambda>r. map_option (\<lambda>d. DateObject (instant d)) (endDate r)) (stored_recurrence task) \<and>
   map_option (map session_startTime \<circ> stored_sessions) (stored_timeTracking (formatTask (json_task task)))
     = map_option (map (\<lambda>s. DateObject (instant (session_startTime s))) \<circ> stored_sessions)
         (stored_timeTracking task) \<and>
   map_option (map session_endTime \<circ> stored_sessions) (stored_timeTracking (formatTask (json_task task)))
     = map_option (map (\<lambda>s. map_option (\<lambda>d. DateObject (instant d)) (session_endTime s)) \<circ> stored_sessions)
         (stored_timeTracking task)"
proof -
  show ?thesis
    by (simp add: formatTask_def json_task_def json_session_def new_Date_toJSON
        option.map_comp comp_def)
qed

lemma reload_unconverted_fields:
  "stored_completedAt (formatTask (json_task task))
     = map_option (\<lambda>d. IsoString (instant d)) (stored_completedAt task) \<and>
   stored_comments (formatTask (json_task task))
     = map_option (map (\<lambda>c. c\<lparr>comment_createdAt := IsoString (instant (comment_createdAt c))\<rparr>))
         (stored_comments task)"
proof -
  have "\<And>d. toJSON d = IsoString (instant d)"
    by (case_tac d) (simp_all add: instant_def)
  then have n: "toJSON = (\<lambda>d. IsoString (instant d))" by (intro ext)
  show ?thesis
    by (simp add: formatTask_def json_task_def n)
qed

text \<open>
  C2. After the collection is written and loaded, \<open>completedAt\<close> and the comments'
  \<open>createdAt\<close> are still the ISO texts that \<open>JSON.parse\<close> read, not dates; \<open>loadTasks\<close>
  converts the other date-valued fields only (lemmas \<open>reload_converted_fields\<close> and
  \<open>reload_unconverted_fields\<close>).
\<close>

theorem reload_leaves_text_dates:
  "map stored_completedAt (loadTasks (Inr (written_file [commented_task])) [])
     = [Some (IsoString 3000)] \<and>
   map (map_option (map comment_createdAt) \<circ> stored_comments)
       (loadTasks (Inr (written_file [commented_task])) [])
     = [Some [IsoString 2000]] \<and>
   map stored_createdAt (loadTasks (Inr (written_file [commented_task])) [])
     = [DateObject 1000]"
  by code_simp

end
